theory Spec2Isabelle
  imports Complex_Main
begin

section \<open>Larval habitat capacity models (habitat.py)\<close>

text \<open>
  The Python classes of \<^verbatim>\<open>habitat.py\<close> are embedded as records, one record
  extension per subclass, so that a method of a parent class is a function on the
  record scheme and applies to every subclass instance, as inheritance does.

  A method call is a function from the object state (and the arguments) to a pair:
  the outcome of the call (\<open>Inr\<close> the returned value, \<open>Inl\<close> the exception raised)
  and the object state the call leaves behind. An exception does not undo the
  assignments made before it, so the state is returned in both cases.

  Every attribute, parameter and weather field is a float, as the data model of the
  specification has it. The first definitions idealise Python floats as real numbers:
  arithmetic is exact, and the exceptions that the arithmetic of the source raises are
  part of the model. They describe the program wherever no result overflows. A second
  set of definitions follows the same source lines with the infinities, NaN and
  overflow of floats; the bounds on the stored capacity and the response to rainfall
  are settled on these. The rounding of results in range is idealised throughout.
\<close>

subsection \<open>Exceptions and the library functions the source calls\<close>

datatype py_error = ZeroDivisionError | OverflowError | ValueError | TypeError

text \<open>Float division \<^verbatim>\<open>a / b\<close>: raises on a zero divisor.\<close>

definition truediv :: "real \<Rightarrow> real \<Rightarrow> py_error + real" where
  "truediv a b = (if b = 0 then Inl ZeroDivisionError else Inr (a / b))"

text \<open>
  \<^verbatim>\<open>math.exp\<close>: raises OverflowError when the result exceeds the largest double,
  that is for arguments above its logarithm (about 709.78).
\<close>

definition math_exp :: "real \<Rightarrow> py_error + real" where
  "math_exp x = (if 709.782712893384 < x then Inl OverflowError else Inr (exp x))"

text \<open>\<^verbatim>\<open>math.sqrt\<close>: raises ValueError (math domain error) on a negative argument.\<close>

definition math_sqrt :: "real \<Rightarrow> py_error + real" where
  "math_sqrt x = (if x < 0 then Inl ValueError else Inr (sqrt x))"

subsection \<open>Data\<close>

text \<open>The weather object: only the three attributes the models read.\<close>

record Weather =
  mean_temp_C :: real
  rel_humid :: real
  rain_mm :: real

text \<open>
  The attribute \<^verbatim>\<open>_capacity\<close> is the field \<open>capacity\<close>, and \<^verbatim>\<open>_stream_flow\<close>
  the field \<open>stream_flow\<close> (an Isabelle name cannot start with an underscore).
\<close>

record BaseHabitatModel =
  capacity :: real

record TemporaryRainfallHabitatModel = BaseHabitatModel +
  accumulation_scale :: real
  evaporation_scale :: real

record SeasonalStreamHabitatModel = TemporaryRainfallHabitatModel +
  stream_flow :: real
  stream_decay_scale :: real
  flow_threshold :: real
  max_capacity :: real

subsection \<open>BaseHabitatModel\<close>

text \<open>\<^verbatim>\<open>BaseHabitatModel.__init__\<close>: sets the capacity to zero.\<close>

definition BaseHabitatModel_init :: BaseHabitatModel where
  "BaseHabitatModel_init = \<lparr>capacity = 0\<rparr>"


text \<open>\<^verbatim>\<open>BaseHabitatModel.get_current_capacity\<close>: returns the stored capacity.\<close>

definition BaseHabitatModel_get_current_capacity ::
  "'a BaseHabitatModel_scheme \<Rightarrow> (py_error + real) \<times> 'a BaseHabitatModel_scheme" where
  "BaseHabitatModel_get_current_capacity self = (Inr (capacity self), self)"

subsection \<open>ConstantHabitatModel\<close>

text \<open>
  \<^verbatim>\<open>ConstantHabitatModel.__init__\<close> stores its argument and does not call the
  initialiser of the base class; \<^verbatim>\<open>update\<close> is \<^verbatim>\<open>pass\<close>; the capacity query is
  inherited.
\<close>

definition ConstantHabitatModel_init :: "real \<Rightarrow> BaseHabitatModel" where
  "ConstantHabitatModel_init c = \<lparr>capacity = c\<rparr>"

definition ConstantHabitatModel_update ::
  "BaseHabitatModel \<Rightarrow> 'w \<Rightarrow> (py_error + unit) \<times> BaseHabitatModel" where
  "ConstantHabitatModel_update self weather = (Inr (), self)"

subsection \<open>TemporaryRainfallHabitatModel\<close>

definition TemporaryRainfallHabitatModel_init :: "real \<Rightarrow> real \<Rightarrow> TemporaryRainfallHabitatModel" where
  "TemporaryRainfallHabitatModel_init a e =
     BaseHabitatModel.extend BaseHabitatModel_init
       (TemporaryRainfallHabitatModel.fields a e)"

text \<open>
  \<^verbatim>\<open>evaporation_rate\<close>, in Python's order of evaluation: the quotient \<^verbatim>\<open>F[0] / Tk\<close>,
  its exponential, the product with \<^verbatim>\<open>F[1]\<close>, the quotient \<^verbatim>\<open>F[2] / Tk\<close>, its square
  root, and the two remaining products. The tuple \<^verbatim>\<open>F\<close> is built from constants with a
  non-zero divisor.
\<close>

definition evaporation_rate ::
  "'a TemporaryRainfallHabitatModel_scheme \<Rightarrow> Weather \<Rightarrow>
   (py_error + real) \<times> 'a TemporaryRainfallHabitatModel_scheme" where
  "evaporation_rate self weather =
     (let R = 8.31446 :: real;
          Mw = 0.01801 :: real;
          F0 = - 5628.1 :: real;
          F1 = 510000000000 :: real;
          F2 = Mw / (2 * pi * R);
          Tk = mean_temp_C weather + 273.15
      in (case truediv F0 Tk of
            Inl err \<Rightarrow> Inl err
          | Inr q0 \<Rightarrow>
             (case math_exp q0 of
                Inl err \<Rightarrow> Inl err
              | Inr ex \<Rightarrow>
                 (case truediv F2 Tk of
                    Inl err \<Rightarrow> Inl err
                  | Inr q2 \<Rightarrow>
                     (case math_sqrt q2 of
                        Inl err \<Rightarrow> Inl err
                      | Inr sq \<Rightarrow> Inr (ex * F1 * sq * (1 - rel_humid weather))))),
          self))"

text \<open>
  \<^verbatim>\<open>TemporaryRainfallHabitatModel.update\<close>. The augmented assignment of the second
  statement reads \<^verbatim>\<open>self._capacity\<close> and \<^verbatim>\<open>self.evaporation_scale\<close> before it calls
  \<^verbatim>\<open>evaporation_rate\<close>; when that call raises, the first assignment stays.
\<close>

definition TemporaryRainfallHabitatModel_update ::
  "'a TemporaryRainfallHabitatModel_scheme \<Rightarrow> Weather \<Rightarrow>
   (py_error + unit) \<times> 'a TemporaryRainfallHabitatModel_scheme" where
  "TemporaryRainfallHabitatModel_update self weather =
     (let self1 = self\<lparr>capacity := capacity self + rain_mm weather * accumulation_scale self\<rparr>
      in (case evaporation_rate self1 weather of
            (Inl err, self2) \<Rightarrow> (Inl err, self2)
          | (Inr rate, self2) \<Rightarrow>
             (let self3 = self2\<lparr>capacity :=
                            capacity self1 - capacity self1 * evaporation_scale self1 * rate\<rparr>;
                  self4 = (if capacity self3 < 0 then self3\<lparr>capacity := 0\<rparr> else self3)
              in (Inr (), self4))))"

subsection \<open>SeasonalStreamHabitatModel\<close>

definition SeasonalStreamHabitatModel_init ::
  "real \<Rightarrow> real \<Rightarrow> real \<Rightarrow> real \<Rightarrow> real \<Rightarrow> SeasonalStreamHabitatModel" where
  "SeasonalStreamHabitatModel_init a e d f m =
     TemporaryRainfallHabitatModel.extend (TemporaryRainfallHabitatModel_init a e)
       (SeasonalStreamHabitatModel.fields 0 d f m)"

definition SeasonalStreamHabitatModel_update ::
  "'a SeasonalStreamHabitatModel_scheme \<Rightarrow> Weather \<Rightarrow>
   (py_error + unit) \<times> 'a SeasonalStreamHabitatModel_scheme" where
  "SeasonalStreamHabitatModel_update self weather =
     (case TemporaryRainfallHabitatModel_update self weather of
        (Inl err, self1) \<Rightarrow> (Inl err, self1)
      | (Inr u, self1) \<Rightarrow>
         (let self2 = (if max_capacity self1 < capacity self1
                       then self1\<lparr>capacity := max_capacity self1\<rparr> else self1);
              self3 = self2\<lparr>stream_flow := stream_flow self2 + rain_mm weather\<rparr>;
              self4 = self3\<lparr>stream_flow :=
                             stream_flow self3 - stream_flow self3 * stream_decay_scale self3\<rparr>
          in (Inr (), self4)))"

text \<open>The local variable \<^verbatim>\<open>stream_flow_reduction\<close> of the overriding capacity query.\<close>

definition stream_flow_reduction :: "'a SeasonalStreamHabitatModel_scheme \<Rightarrow> py_error + real" where
  "stream_flow_reduction self =
     truediv (flow_threshold self) (stream_flow self + flow_threshold self)"

definition SeasonalStreamHabitatModel_get_current_capacity ::
  "'a SeasonalStreamHabitatModel_scheme \<Rightarrow>
   (py_error + real) \<times> 'a SeasonalStreamHabitatModel_scheme" where
  "SeasonalStreamHabitatModel_get_current_capacity self =
     (case stream_flow_reduction self of
        Inl err \<Rightarrow> (Inl err, self)
      | Inr red \<Rightarrow> (Inr (capacity self * red), self))"

subsection \<open>A sequence of update calls\<close>

text \<open>
  The caller feeds one weather record per time step. An exception raised by a call
  ends the sequence, leaving the state of the failed call.
\<close>

fun update_all ::
  "('s \<Rightarrow> 'w \<Rightarrow> (py_error + unit) \<times> 's) \<Rightarrow> 's \<Rightarrow> 'w list \<Rightarrow> (py_error + unit) \<times> 's" where
  "update_all upd self [] = (Inr (), self)"
| "update_all upd self (w # ws) =
     (case upd self w of
        (Inl err, self1) \<Rightarrow> (Inl err, self1)
      | (Inr u, self1) \<Rightarrow> update_all upd self1 ws)"

subsection \<open>The update rules as the specification words them\<close>

text \<open>
  The constants of the Clausius-Clapeyron relation, the evaporation rate as a formula
  of the weather, the capacity after one step of the rainfall model as a formula of
  the capacity before it, the cap from above, and the stream flow after one step.
  The weather of the first concrete scenario of the specification serves as the
  example input.
\<close>

definition spec_A :: real where "spec_A = - 5628.1"
definition spec_B :: real where "spec_B = 510000000000"
definition spec_R :: real where "spec_R = 8.31446"
definition spec_Mw :: real where "spec_Mw = 0.01801"
definition spec_C :: real where "spec_C = spec_Mw / (2 * pi * spec_R)"

definition spec_evaporation_rate :: "Weather \<Rightarrow> real" where
  "spec_evaporation_rate weather =
     (let Tk = mean_temp_C weather + 273.15
      in exp (spec_A / Tk) * spec_B * sqrt (spec_C / Tk) * (1 - rel_humid weather))"

definition spec_rainfall_step :: "real \<Rightarrow> real \<Rightarrow> real \<Rightarrow> real \<Rightarrow> real \<Rightarrow> real" where
  "spec_rainfall_step c rain acc evap rate =
     (let c1 = c + rain * acc;
          c2 = c1 - c1 * evap * rate
      in if c2 < 0 then 0 else c2)"

definition spec_capacity_cap :: "real \<Rightarrow> real \<Rightarrow> real" where
  "spec_capacity_cap c m = (if m < c then m else c)"

definition spec_stream_flow_step :: "real \<Rightarrow> real \<Rightarrow> real \<Rightarrow> real" where
  "spec_stream_flow_step flow rain decay =
     (let f1 = flow + rain
      in f1 - f1 * decay)"

definition scenario_weather :: Weather where
  "scenario_weather = \<lparr>mean_temp_C = 25, rel_humid = 0.8, rain_mm = 10\<rparr>"

section \<open>The same methods with overflow, infinities and NaN\<close>

text \<open>
  The definitions above compute with exact reals. A Python float also has the values
  \<^verbatim>\<open>inf\<close>, \<^verbatim>\<open>-inf\<close> and \<^verbatim>\<open>nan\<close>, and a finite result too large for a double
  becomes an infinity. The definitions of this section follow the same source lines
  with these values: a float is a finite real or one of the three special values, an
  operation on finite operands overflows to an infinity when its exact result reaches
  the bound at which round-to-nearest leaves the doubles (\<open>2^1024 - 2^970\<close>), and the
  special values follow IEEE 754 (a comparison with NaN is false, \<open>inf - inf\<close> and
  \<open>inf * 0\<close> are NaN). The rounding of results in range stays idealised.
\<close>

datatype pyfloat = Finite real | PosInf | NegInf | NaN

definition overflow_bound :: real where
  "overflow_bound = 2 ^ 1024 - 2 ^ 970"

definition fl_round :: "real \<Rightarrow> pyfloat" where
  "fl_round r =
     (if overflow_bound \<le> r then PosInf
      else if r \<le> - overflow_bound then NegInf
      else Finite r)"

fun fl_neg :: "pyfloat \<Rightarrow> pyfloat" where
  "fl_neg (Finite a) = Finite (- a)"
| "fl_neg PosInf = NegInf"
| "fl_neg NegInf = PosInf"
| "fl_neg NaN = NaN"

fun fl_add :: "pyfloat \<Rightarrow> pyfloat \<Rightarrow> pyfloat" where
  "fl_add (Finite a) (Finite b) = fl_round (a + b)"
| "fl_add NaN y = NaN"
| "fl_add x NaN = NaN"
| "fl_add PosInf NegInf = NaN"
| "fl_add NegInf PosInf = NaN"
| "fl_add PosInf y = PosInf"
| "fl_add x PosInf = PosInf"
| "fl_add NegInf y = NegInf"
| "fl_add x NegInf = NegInf"

definition fl_sub :: "pyfloat \<Rightarrow> pyfloat \<Rightarrow> pyfloat" where
  "fl_sub x y = fl_add x (fl_neg y)"

text \<open>The product of an infinity with a finite number: NaN at zero, else by sign.\<close>

definition inf_times :: "pyfloat \<Rightarrow> real \<Rightarrow> pyfloat" where
  "inf_times i a = (if a = 0 then NaN else if 0 < a then i else fl_neg i)"

fun fl_mul :: "pyfloat \<Rightarrow> pyfloat \<Rightarrow> pyfloat" where
  "fl_mul (Finite a) (Finite b) = fl_round (a * b)"
| "fl_mul NaN y = NaN"
| "fl_mul x NaN = NaN"
| "fl_mul (Finite a) y = inf_times y a"
| "fl_mul x (Finite b) = inf_times x b"
| "fl_mul PosInf y = y"
| "fl_mul NegInf y = fl_neg y"

text \<open>The comparisons \<^verbatim>\<open>x < y\<close> and \<^verbatim>\<open>x <= y\<close>; \<^verbatim>\<open>x > y\<close> is \<open>fl_lt y x\<close>.\<close>

fun fl_lt :: "pyfloat \<Rightarrow> pyfloat \<Rightarrow> bool" where
  "fl_lt (Finite a) (Finite b) = (a < b)"
| "fl_lt NaN y = False"
| "fl_lt x NaN = False"
| "fl_lt x NegInf = False"
| "fl_lt PosInf y = False"
| "fl_lt x y = True"

fun fl_le :: "pyfloat \<Rightarrow> pyfloat \<Rightarrow> bool" where
  "fl_le (Finite a) (Finite b) = (a \<le> b)"
| "fl_le NaN y = False"
| "fl_le x NaN = False"
| "fl_le NegInf y = True"
| "fl_le x PosInf = True"
| "fl_le x y = False"

text \<open>
  Float division \<^verbatim>\<open>x / y\<close>: a zero divisor raises whatever the dividend is; an
  infinite divisor gives zero for a finite dividend and NaN for an infinite one.
\<close>

fun truediv_fl :: "pyfloat \<Rightarrow> pyfloat \<Rightarrow> py_error + pyfloat" where
  "truediv_fl x (Finite b) =
     (if b = 0 then Inl ZeroDivisionError
      else Inr (case x of
                  Finite a \<Rightarrow> fl_round (a / b)
                | NaN \<Rightarrow> NaN
                | i \<Rightarrow> (if 0 < b then i else fl_neg i)))"
| "truediv_fl x NaN = Inr NaN"
| "truediv_fl (Finite a) y = Inr (Finite 0)"
| "truediv_fl x y = Inr NaN"

text \<open>
  \<^verbatim>\<open>math.exp\<close> and \<^verbatim>\<open>math.sqrt\<close>: an infinite or NaN argument raises nothing,
  except the square root of \<^verbatim>\<open>-inf\<close>.
\<close>

fun math_exp_fl :: "pyfloat \<Rightarrow> py_error + pyfloat" where
  "math_exp_fl (Finite x) =
     (if 709.782712893384 < x then Inl OverflowError else Inr (Finite (exp x)))"
| "math_exp_fl PosInf = Inr PosInf"
| "math_exp_fl NegInf = Inr (Finite 0)"
| "math_exp_fl NaN = Inr NaN"

fun math_sqrt_fl :: "pyfloat \<Rightarrow> py_error + pyfloat" where
  "math_sqrt_fl (Finite x) = (if x < 0 then Inl ValueError else Inr (Finite (sqrt x)))"
| "math_sqrt_fl PosInf = Inr PosInf"
| "math_sqrt_fl NegInf = Inl ValueError"
| "math_sqrt_fl NaN = Inr NaN"

record Weather_fl =
  mean_temp_C_fl :: pyfloat
  rel_humid_fl :: pyfloat
  rain_mm_fl :: pyfloat

record BaseHabitatModel_fl =
  capacity_fl :: pyfloat

record TemporaryRainfallHabitatModel_fl = BaseHabitatModel_fl +
  accumulation_scale_fl :: pyfloat
  evaporation_scale_fl :: pyfloat

record SeasonalStreamHabitatModel_fl = TemporaryRainfallHabitatModel_fl +
  stream_flow_fl :: pyfloat
  stream_decay_scale_fl :: pyfloat
  flow_threshold_fl :: pyfloat
  max_capacity_fl :: pyfloat

definition TemporaryRainfallHabitatModel_init_fl ::
  "pyfloat \<Rightarrow> pyfloat \<Rightarrow> TemporaryRainfallHabitatModel_fl" where
  "TemporaryRainfallHabitatModel_init_fl a e =
     \<lparr>capacity_fl = Finite 0, accumulation_scale_fl = a, evaporation_scale_fl = e\<rparr>"

definition SeasonalStreamHabitatModel_init_fl ::
  "pyfloat \<Rightarrow> pyfloat \<Rightarrow> pyfloat \<Rightarrow> pyfloat \<Rightarrow> pyfloat \<Rightarrow> SeasonalStreamHabitatModel_fl" where
  "SeasonalStreamHabitatModel_init_fl a e d f m =
     \<lparr>capacity_fl = Finite 0, accumulation_scale_fl = a, evaporation_scale_fl = e,
      stream_flow_fl = Finite 0, stream_decay_scale_fl = d, flow_threshold_fl = f,
      max_capacity_fl = m\<rparr>"

definition evaporation_rate_fl ::
  "'a TemporaryRainfallHabitatModel_fl_scheme \<Rightarrow> Weather_fl \<Rightarrow>
   (py_error + pyfloat) \<times> 'a TemporaryRainfallHabitatModel_fl_scheme" where
  "evaporation_rate_fl self weather =
     (let R = 8.31446 :: real;
          Mw = 0.01801 :: real;
          F0 = Finite (- 5628.1);
          F1 = Finite 510000000000;
          F2 = Finite (Mw / (2 * pi * R));
          Tk = fl_add (mean_temp_C_fl weather) (Finite 273.15)
      in (case truediv_fl F0 Tk of
            Inl err \<Rightarrow> Inl err
          | Inr q0 \<Rightarrow>
             (case math_exp_fl q0 of
                Inl err \<Rightarrow> Inl err
              | Inr ex \<Rightarrow>
                 (case truediv_fl F2 Tk of
                    Inl err \<Rightarrow> Inl err
                  | Inr q2 \<Rightarrow>
                     (case math_sqrt_fl q2 of
                        Inl err \<Rightarrow> Inl err
                      | Inr sq \<Rightarrow>
                          Inr (fl_mul (fl_mul (fl_mul ex F1) sq)
                                 (fl_sub (Finite 1) (rel_humid_fl weather)))))),
          self))"

definition TemporaryRainfallHabitatModel_update_fl ::
  "'a TemporaryRainfallHabitatModel_fl_scheme \<Rightarrow> Weather_fl \<Rightarrow>
   (py_error + unit) \<times> 'a TemporaryRainfallHabitatModel_fl_scheme" where
  "TemporaryRainfallHabitatModel_update_fl self weather =
     (let self1 = self\<lparr>capacity_fl :=
                    fl_add (capacity_fl self)
                      (fl_mul (rain_mm_fl weather) (accumulation_scale_fl self))\<rparr>
      in (case evaporation_rate_fl self1 weather of
            (Inl err, self2) \<Rightarrow> (Inl err, self2)
          | (Inr rate, self2) \<Rightarrow>
             (let self3 = self2\<lparr>capacity_fl :=
                            fl_sub (capacity_fl self1)
                              (fl_mul (fl_mul (capacity_fl self1) (evaporation_scale_fl self1))
                                 rate)\<rparr>;
                  self4 = (if fl_lt (capacity_fl self3) (Finite 0)
                           then self3\<lparr>capacity_fl := Finite 0\<rparr> else self3)
              in (Inr (), self4))))"

definition SeasonalStreamHabitatModel_update_fl ::
  "'a SeasonalStreamHabitatModel_fl_scheme \<Rightarrow> Weather_fl \<Rightarrow>
   (py_error + unit) \<times> 'a SeasonalStreamHabitatModel_fl_scheme" where
  "SeasonalStreamHabitatModel_update_fl self weather =
     (case TemporaryRainfallHabitatModel_update_fl self weather of
        (Inl err, self1) \<Rightarrow> (Inl err, self1)
      | (Inr u, self1) \<Rightarrow>
         (let self2 = (if fl_lt (max_capacity_fl self1) (capacity_fl self1)
                       then self1\<lparr>capacity_fl := max_capacity_fl self1\<rparr> else self1);
              self3 = self2\<lparr>stream_flow_fl := fl_add (stream_flow_fl self2) (rain_mm_fl weather)\<rparr>;
              self4 = self3\<lparr>stream_flow_fl :=
                             fl_sub (stream_flow_fl self3)
                               (fl_mul (stream_flow_fl self3) (stream_decay_scale_fl self3))\<rparr>
          in (Inr (), self4)))"

text \<open>
  An exact result is in range when it does not overflow. One step of the rainfall
  model stays in range when each of its five arithmetic results does.
\<close>

definition in_range :: "real \<Rightarrow> bool" where
  "in_range r = (\<bar>r\<bar> < overflow_bound)"

definition step_in_range :: "real \<Rightarrow> real \<Rightarrow> real \<Rightarrow> real \<Rightarrow> real \<Rightarrow> bool" where
  "step_in_range c rain acc evap rate =
     (in_range (rain * acc)
      \<and> in_range (c + rain * acc)
      \<and> in_range ((c + rain * acc) * evap)
      \<and> in_range ((c + rain * acc) * evap * rate)
      \<and> in_range (c + rain * acc - (c + rain * acc) * evap * rate))"

text \<open>The capacity after one step of the rainfall model, and the cap, on floats.\<close>

definition spec_rainfall_step_fl ::
  "pyfloat \<Rightarrow> pyfloat \<Rightarrow> pyfloat \<Rightarrow> pyfloat \<Rightarrow> pyfloat \<Rightarrow> pyfloat" where
  "spec_rainfall_step_fl c rain acc evap rate =
     (let c1 = fl_add c (fl_mul rain acc);
          c2 = fl_sub c1 (fl_mul (fl_mul c1 evap) rate)
      in if fl_lt c2 (Finite 0) then Finite 0 else c2)"

definition spec_capacity_cap_fl :: "pyfloat \<Rightarrow> pyfloat \<Rightarrow> pyfloat" where
  "spec_capacity_cap_fl c m = (if fl_lt m c then m else c)"

definition spec_stream_flow_step_fl :: "pyfloat \<Rightarrow> pyfloat \<Rightarrow> pyfloat \<Rightarrow> pyfloat" where
  "spec_stream_flow_step_fl flow rain decay =
     (let f1 = fl_add flow rain
      in fl_sub f1 (fl_mul f1 decay))"

definition scenario_weather_fl :: Weather_fl where
  "scenario_weather_fl =
     \<lparr>mean_temp_C_fl = Finite 25, rel_humid_fl = Finite 0.8, rain_mm_fl = Finite 10\<rparr>"

section \<open>Properties\<close>

subsection \<open>ConstantHabitatModel\<close>

lemma update_all_constant:
  "update_all ConstantHabitatModel_update self ws = (Inr (), self)"
  by (induction ws) (simp_all add: ConstantHabitatModel_update_def)

text \<open>
  C7. A ConstantHabitatModel constructed with capacity \<open>c\<close> is left unchanged by
  every finite sequence of update calls, none of which raises, and the capacity
  query afterwards returns exactly \<open>c\<close>.
\<close>

theorem constant_model_invariant:
  "update_all ConstantHabitatModel_update (ConstantHabitatModel_init c) ws
     = (Inr (), ConstantHabitatModel_init c)
   \<and> fst (BaseHabitatModel_get_current_capacity
            (snd (update_all ConstantHabitatModel_update (ConstantHabitatModel_init c) ws)))
     = Inr c"
  by (simp add: update_all_constant BaseHabitatModel_get_current_capacity_def
        ConstantHabitatModel_init_def)

subsection \<open>The evaporation rate\<close>

lemma evaporation_rate_state: "snd (evaporation_rate self weather) = self"
  by (simp add: evaporation_rate_def Let_def)

text \<open>The library calls on the arguments where they return.\<close>

lemma math_exp_nonpos: "x \<le> 0 \<Longrightarrow> math_exp x = Inr (exp x)"
  by (simp add: math_exp_def)

lemma math_sqrt_nonneg: "0 \<le> x \<Longrightarrow> math_sqrt x = Inr (sqrt x)"
  by (simp add: math_sqrt_def)

lemma math_sqrt_neg: "x < 0 \<Longrightarrow> math_sqrt x = Inl ValueError"
  by (simp add: math_sqrt_def)

lemma truediv_nonzero: "b \<noteq> 0 \<Longrightarrow> truediv a b = Inr (a / b)"
  by (simp add: truediv_def)

lemma truediv_zero: "truediv a 0 = Inl ZeroDivisionError"
  by (simp add: truediv_def)

text \<open>
  Above absolute zero no step of the computation raises; at or below it one does
  (the division at zero, the exponential or the square root below).
\<close>

lemma evaporation_rate_returns:
  assumes "0 < mean_temp_C weather + 273.15"
  shows "fst (evaporation_rate self weather) = Inr (spec_evaporation_rate weather)"
proof -
  define Tk where "Tk = mean_temp_C weather + 273.15"
  define F0 :: real where "F0 = - 5628.1"
  define F2 :: real where "F2 = 0.01801 / (2 * pi * 8.31446)"
  have Tk: "0 < Tk" using assms by (simp add: Tk_def)
  have F0: "F0 \<le> 0" by (simp add: F0_def)
  have F2: "0 \<le> F2" by (simp add: F2_def)
  have q0: "truediv F0 Tk = Inr (F0 / Tk)"
    using Tk by (simp add: truediv_nonzero)
  have ex: "math_exp (F0 / Tk) = Inr (exp (F0 / Tk))"
    using Tk F0 by (intro math_exp_nonpos) (simp add: divide_nonpos_pos)
  have q2: "truediv F2 Tk = Inr (F2 / Tk)"
    using Tk by (simp add: truediv_nonzero)
  have sq: "math_sqrt (F2 / Tk) = Inr (sqrt (F2 / Tk))"
    using Tk F2 by (intro math_sqrt_nonneg) simp
  have "fst (evaporation_rate self weather)
        = Inr (exp (F0 / Tk) * 510000000000 * sqrt (F2 / Tk) * (1 - rel_humid weather))"
    unfolding evaporation_rate_def Let_def fst_conv
    unfolding Tk_def [symmetric] F0_def [symmetric] F2_def [symmetric]
    by (simp only: q0 ex q2 sq sum.case)
  then show ?thesis
    by (simp add: spec_evaporation_rate_def spec_A_def spec_B_def spec_C_def spec_Mw_def
        spec_R_def Let_def Tk_def F0_def F2_def)
qed

lemma evaporation_rate_raises:
  assumes "mean_temp_C weather + 273.15 \<le> 0"
  shows "\<exists>err. fst (evaporation_rate self weather) = Inl err"
proof -
  define Tk where "Tk = mean_temp_C weather + 273.15"
  define F0 :: real where "F0 = - 5628.1"
  define F2 :: real where "F2 = 0.01801 / (2 * pi * 8.31446)"
  have F2: "0 < F2" by (simp add: F2_def)
  have unf: "fst (evaporation_rate self weather) =
     (case truediv F0 Tk of
            Inl err \<Rightarrow> Inl err
          | Inr q0 \<Rightarrow>
             (case math_exp q0 of
                Inl err \<Rightarrow> Inl err
              | Inr ex \<Rightarrow>
                 (case truediv F2 Tk of
                    Inl err \<Rightarrow> Inl err
                  | Inr q2 \<Rightarrow>
                     (case math_sqrt q2 of
                        Inl err \<Rightarrow> Inl err
                      | Inr sq \<Rightarrow> Inr (ex * 510000000000 * sq * (1 - rel_humid weather))))))"
    unfolding evaporation_rate_def Let_def fst_conv
    unfolding Tk_def [symmetric] F0_def [symmetric] F2_def [symmetric] ..
  show ?thesis
  proof (cases "Tk = 0")
    case True
    then show ?thesis unfolding unf by (simp add: truediv_zero)
  next
    case False
    with assms have neg: "Tk < 0" by (simp add: Tk_def)
    have "F2 / Tk < 0" using F2 neg by (simp add: divide_pos_neg)
    then have sq: "math_sqrt (F2 / Tk) = Inl ValueError" by (rule math_sqrt_neg)
    show ?thesis unfolding unf using False
      by (simp add: truediv_nonzero sq split: sum.splits)
  qed
qed


lemma evaporation_rate_self:
  "fst (evaporation_rate self weather) = fst (evaporation_rate other weather)"
  by (simp add: evaporation_rate_def Let_def)

subsection \<open>One step of the rainfall model\<close>

lemma rainfall_update_cases:
  "TemporaryRainfallHabitatModel_update self weather =
     (case fst (evaporation_rate self weather) of
        Inl err \<Rightarrow>
          (Inl err, self\<lparr>capacity := capacity self + rain_mm weather * accumulation_scale self\<rparr>)
      | Inr rate \<Rightarrow>
          (Inr (), self\<lparr>capacity := spec_rainfall_step (capacity self) (rain_mm weather)
                        (accumulation_scale self) (evaporation_scale self) rate\<rparr>))"
proof -
  let ?self1 = "self\<lparr>capacity := capacity self + rain_mm weather * accumulation_scale self\<rparr>"
  have e: "evaporation_rate ?self1 weather = (fst (evaporation_rate self weather), ?self1)"
    using evaporation_rate_state [of ?self1 weather]
      evaporation_rate_self [of ?self1 weather self]
    by (metis prod.collapse)
  show ?thesis
    unfolding TemporaryRainfallHabitatModel_update_def Let_def e
    by (simp add: spec_rainfall_step_def Let_def split: sum.splits)
qed

text \<open>
  C1. Whenever the evaporation rate of the weather is obtained,
  \<^verbatim>\<open>TemporaryRainfallHabitatModel.update\<close> returns, and the state it leaves is the state
  before the call with the capacity replaced by the result of the three steps:
  add \<open>rain_mm * accumulation_scale\<close>, subtract the product of that sum, the
  evaporation scale and the rate, and replace a negative result by \<open>0\<close>. No other
  field changes.
\<close>

theorem rainfall_update_three_steps:
  assumes "fst (evaporation_rate self weather) = Inr rate"
  shows "TemporaryRainfallHabitatModel_update self weather =
           (Inr (), self\<lparr>capacity := spec_rainfall_step (capacity self) (rain_mm weather)
                         (accumulation_scale self) (evaporation_scale self) rate\<rparr>)"
  using assms by (simp add: rainfall_update_cases)

lemma scenario_weather_rate:
  "fst (evaporation_rate self scenario_weather) = Inr (spec_evaporation_rate scenario_weather)"
  by (rule evaporation_rate_returns) (simp add: scenario_weather_def)

theorem rainfall_update_three_steps_witness:
  "fst (evaporation_rate (TemporaryRainfallHabitatModel_init 1 0.1) scenario_weather)
     = Inr (spec_evaporation_rate scenario_weather)
   \<and> TemporaryRainfallHabitatModel_update (TemporaryRainfallHabitatModel_init 1 0.1)
       scenario_weather
     = (Inr (), (TemporaryRainfallHabitatModel_init 1 0.1)
          \<lparr>capacity := spec_rainfall_step 0 10 1 0.1 (spec_evaporation_rate scenario_weather)\<rparr>)"
proof -
  have h: "fst (evaporation_rate (TemporaryRainfallHabitatModel_init 1 0.1) scenario_weather)
     = Inr (spec_evaporation_rate scenario_weather)"
    by (rule scenario_weather_rate)
  have c: "capacity (TemporaryRainfallHabitatModel_init 1 0.1) = 0"
    "accumulation_scale (TemporaryRainfallHabitatModel_init 1 0.1) = 1"
    "evaporation_scale (TemporaryRainfallHabitatModel_init 1 0.1) = 0.1"
    "rain_mm scenario_weather = 10"
    by (simp_all add: scenario_weather_def TemporaryRainfallHabitatModel_init_def
        BaseHabitatModel_init_def BaseHabitatModel.defs TemporaryRainfallHabitatModel.defs)
  show ?thesis
    using h rainfall_update_three_steps [OF h] unfolding c by (rule conjI)
qed

text \<open>
  C2. \<^verbatim>\<open>evaporation_rate\<close> leaves the object as it found it, its result does not
  depend on the object, and for a temperature above absolute zero it returns
  \<open>exp (A / Tk) * B * sqrt (C / Tk) * (1 - rel_humid)\<close> with \<open>Tk = mean_temp_C + 273.15\<close>
  and the constants \<open>A\<close>, \<open>B\<close>, \<open>C\<close> of the specification.
\<close>

theorem evaporation_rate_formula:
  "snd (evaporation_rate self weather) = self
   \<and> fst (evaporation_rate self weather) = fst (evaporation_rate other weather)
   \<and> (0 < mean_temp_C weather + 273.15 \<longrightarrow>
        fst (evaporation_rate self weather)
          = Inr (exp (spec_A / (mean_temp_C weather + 273.15)) * spec_B
                 * sqrt (spec_C / (mean_temp_C weather + 273.15)) * (1 - rel_humid weather)))"
  using evaporation_rate_state [of self weather] evaporation_rate_self [of self weather other]
    evaporation_rate_returns [of weather self]
  by (simp add: spec_evaporation_rate_def Let_def)


theorem evaporation_rate_formula_witness:
  "(0::real) < mean_temp_C scenario_weather + 273.15
   \<and> evaporation_rate (TemporaryRainfallHabitatModel_init 1 0.1) scenario_weather
     = (Inr (exp (spec_A / 298.15) * spec_B * sqrt (spec_C / 298.15) * 0.2),
        TemporaryRainfallHabitatModel_init 1 0.1)"
proof -
  have t: "mean_temp_C scenario_weather + 273.15 = 298.15" "1 - rel_humid scenario_weather = 0.2"
    by (simp_all add: scenario_weather_def)
  have pos: "(0::real) < mean_temp_C scenario_weather + 273.15"
    unfolding t by simp
  show ?thesis
    using pos evaporation_rate_formula
      [of "TemporaryRainfallHabitatModel_init 1 0.1" scenario_weather
          "TemporaryRainfallHabitatModel_init 1 0.1"]
    unfolding t by (simp add: prod_eq_iff)
qed

subsection \<open>The constructed states and the update rules in closed form\<close>

lemma rainfall_init_record:
  "TemporaryRainfallHabitatModel_init a e
     = \<lparr>capacity = 0, accumulation_scale = a, evaporation_scale = e\<rparr>"
  by (simp add: TemporaryRainfallHabitatModel_init_def BaseHabitatModel_init_def
      BaseHabitatModel.defs TemporaryRainfallHabitatModel.defs)

lemma seasonal_init_record:
  "SeasonalStreamHabitatModel_init a e d f m
     = \<lparr>capacity = 0, accumulation_scale = a, evaporation_scale = e,
        stream_flow = 0, stream_decay_scale = d, flow_threshold = f, max_capacity = m\<rparr>"
  by (simp add: SeasonalStreamHabitatModel_init_def rainfall_init_record
      TemporaryRainfallHabitatModel.defs SeasonalStreamHabitatModel.defs)

lemma spec_rainfall_step_nonneg: "0 \<le> spec_rainfall_step c rain acc evap rate"
  by (simp add: spec_rainfall_step_def Let_def)

lemma spec_capacity_cap_le: "spec_capacity_cap c m \<le> m"
  by (simp add: spec_capacity_cap_def)

lemma spec_capacity_cap_nonneg: "0 \<le> c \<Longrightarrow> 0 \<le> m \<Longrightarrow> 0 \<le> spec_capacity_cap c m"
  by (simp add: spec_capacity_cap_def)


lemma rainfall_update_Inr:
  assumes "TemporaryRainfallHabitatModel_update self weather = (Inr u, self1)"
  shows "\<exists>rate. fst (evaporation_rate self weather) = Inr rate
           \<and> self1 = self\<lparr>capacity := spec_rainfall_step (capacity self) (rain_mm weather)
                               (accumulation_scale self) (evaporation_scale self) rate\<rparr>"
  using assms unfolding rainfall_update_cases by (auto split: sum.splits)

lemma rainfall_update_returns:
  assumes "0 < mean_temp_C weather + 273.15"
  shows "fst (TemporaryRainfallHabitatModel_update self weather) = Inr ()"
  using evaporation_rate_returns [OF assms, of self]
  by (simp add: rainfall_update_cases)

lemma rainfall_update_frame:
  "snd (TemporaryRainfallHabitatModel_update self weather)
     = self\<lparr>capacity := capacity (snd (TemporaryRainfallHabitatModel_update self weather))\<rparr>"
  unfolding rainfall_update_cases by (simp split: sum.splits)

lemma seasonal_update_cases:
  "SeasonalStreamHabitatModel_update self weather =
     (case fst (evaporation_rate self weather) of
        Inl err \<Rightarrow>
          (Inl err, self\<lparr>capacity := capacity self + rain_mm weather * accumulation_scale self\<rparr>)
      | Inr rate \<Rightarrow>
          (Inr (), self\<lparr>capacity :=
                         spec_capacity_cap
                           (spec_rainfall_step (capacity self) (rain_mm weather)
                              (accumulation_scale self) (evaporation_scale self) rate)
                           (max_capacity self),
                       stream_flow :=
                         spec_stream_flow_step (stream_flow self) (rain_mm weather)
                           (stream_decay_scale self)\<rparr>))"
  unfolding SeasonalStreamHabitatModel_update_def rainfall_update_cases
  by (simp add: spec_capacity_cap_def spec_stream_flow_step_def Let_def split: sum.splits)

lemma seasonal_update_Inr:
  assumes "SeasonalStreamHabitatModel_update self weather = (Inr u, self1)"
  shows "\<exists>rate. fst (evaporation_rate self weather) = Inr rate
           \<and> self1 = self\<lparr>capacity :=
                         spec_capacity_cap
                           (spec_rainfall_step (capacity self) (rain_mm weather)
                              (accumulation_scale self) (evaporation_scale self) rate)
                           (max_capacity self),
                       stream_flow :=
                         spec_stream_flow_step (stream_flow self) (rain_mm weather)
                           (stream_decay_scale self)\<rparr>"
  using assms unfolding seasonal_update_cases by (auto split: sum.splits)

lemma seasonal_update_returns:
  assumes "0 < mean_temp_C weather + 273.15"
  shows "fst (SeasonalStreamHabitatModel_update self weather) = Inr ()"
  using evaporation_rate_returns [OF assms, of self]
  by (simp add: seasonal_update_cases)

lemma seasonal_update_frame:
  "snd (SeasonalStreamHabitatModel_update self weather)
     = self\<lparr>capacity := capacity (snd (SeasonalStreamHabitatModel_update self weather)),
            stream_flow := stream_flow (snd (SeasonalStreamHabitatModel_update self weather))\<rparr>"
  unfolding seasonal_update_cases by (simp split: sum.splits)

subsection \<open>Sequences of update calls\<close>

text \<open>
  An invariant of the steps that return holds after every non-empty sequence that
  returns; a sequence returns when each of its calls does.
\<close>

lemma update_all_invariant:
  assumes step: "\<And>s w u s1. I s \<Longrightarrow> upd s w = (Inr u, s1) \<Longrightarrow> I s1 \<and> Q s1"
    and "I s" and "ws \<noteq> []" and "update_all upd s ws = (Inr u, s1)"
  shows "I s1 \<and> Q s1"
  using assms(2-)
proof (induction ws arbitrary: s)
  case Nil
  then show ?case by simp
next
  case (Cons w ws)
  obtain r s2 where r: "upd s w = (r, s2)" by (cases "upd s w")
  show ?case
  proof (cases r)
    case (Inl err)
    with Cons.prems r show ?thesis by simp
  next
    case (Inr v)
    with r step Cons.prems(1) have s2: "I s2 \<and> Q s2" by blast
    from Cons.prems(3) r Inr have run: "update_all upd s2 ws = (Inr u, s1)" by simp
    show ?thesis
    proof (cases "ws = []")
      case True
      with run s2 show ?thesis by simp
    next
      case False
      with Cons.IH s2 run show ?thesis by blast
    qed
  qed
qed

lemma update_all_returns:
  assumes "\<And>s w. w \<in> set ws \<Longrightarrow> fst (upd s w) = Inr ()"
  shows "fst (update_all upd s ws) = Inr ()"
  using assms
proof (induction ws arbitrary: s)
  case Nil
  then show ?case by simp
next
  case (Cons w ws)
  have "fst (upd s w) = Inr ()" using Cons.prems by simp
  then obtain s2 where "upd s w = (Inr (), s2)" by (cases "upd s w") simp
  then show ?case using Cons by simp
qed


subsection \<open>One step of the seasonal stream model\<close>

lemma scenario_seasonal_rainfall_update:
  "TemporaryRainfallHabitatModel_update (SeasonalStreamHabitatModel_init 1 0 0.5 5 m)
     scenario_weather
   = (Inr (), (SeasonalStreamHabitatModel_init 1 0 0.5 5 m)\<lparr>capacity := 10\<rparr>)"
  unfolding rainfall_update_cases scenario_weather_rate
  by (simp add: seasonal_init_record spec_rainfall_step_def scenario_weather_def)

lemma scenario_seasonal_update:
  assumes "0 < mean_temp_C weather + 273.15" and "rain_mm weather = 10"
  shows "SeasonalStreamHabitatModel_update (SeasonalStreamHabitatModel_init 1 0 0.5 5 100) weather
   = (Inr (), (SeasonalStreamHabitatModel_init 1 0 0.5 5 100)\<lparr>capacity := 10, stream_flow := 5\<rparr>)"
  unfolding seasonal_update_cases evaporation_rate_returns [OF assms(1)]
  using assms(2)
  by (simp add: seasonal_init_record spec_rainfall_step_def spec_capacity_cap_def
      spec_stream_flow_step_def)

lemma scenario_current_capacity:
  "SeasonalStreamHabitatModel_get_current_capacity
     ((SeasonalStreamHabitatModel_init 1 0 0.5 5 100)\<lparr>capacity := 10, stream_flow := 5\<rparr>)
   = (Inr 5, (SeasonalStreamHabitatModel_init 1 0 0.5 5 100)\<lparr>capacity := 10, stream_flow := 5\<rparr>)"
  by (simp add: SeasonalStreamHabitatModel_get_current_capacity_def stream_flow_reduction_def
      truediv_def seasonal_init_record)

text \<open>
  C3. When the update of the rainfall model returns, leaving the state \<open>self1\<close>,
  \<^verbatim>\<open>SeasonalStreamHabitatModel.update\<close> returns the state \<open>self1\<close> with the capacity
  replaced by \<open>max_capacity\<close> where it exceeds it, and with the stream flow replaced by
  the flow after \<open>rain_mm\<close> is added and the product of that sum with
  \<open>stream_decay_scale\<close> is subtracted. For the model constructed with the parameters
  1.0, 0.0, 0.5, 5, 100, one update with \<open>rain_mm = 10\<close> at a temperature above
  absolute zero returns with capacity 10 and stream flow 5, and the capacity query
  then returns 5.
\<close>

theorem seasonal_update_order:
  "(TemporaryRainfallHabitatModel_update self weather = (Inr (), self1) \<longrightarrow>
      SeasonalStreamHabitatModel_update self weather
        = (Inr (), self1\<lparr>capacity := spec_capacity_cap (capacity self1) (max_capacity self),
                         stream_flow := spec_stream_flow_step (stream_flow self) (rain_mm weather)
                                          (stream_decay_scale self)\<rparr>))
   \<and> (0 < mean_temp_C weather + 273.15 \<and> rain_mm weather = 10 \<longrightarrow>
        fst (SeasonalStreamHabitatModel_update
               (SeasonalStreamHabitatModel_init 1 0 0.5 5 100) weather) = Inr ()
        \<and> capacity (snd (SeasonalStreamHabitatModel_update
               (SeasonalStreamHabitatModel_init 1 0 0.5 5 100) weather)) = 10
        \<and> stream_flow (snd (SeasonalStreamHabitatModel_update
               (SeasonalStreamHabitatModel_init 1 0 0.5 5 100) weather)) = 5
        \<and> fst (SeasonalStreamHabitatModel_get_current_capacity
                 (snd (SeasonalStreamHabitatModel_update
                    (SeasonalStreamHabitatModel_init 1 0 0.5 5 100) weather))) = Inr 5)"
proof (intro conjI impI)
  assume "TemporaryRainfallHabitatModel_update self weather = (Inr (), self1)"
  from rainfall_update_Inr [OF this] obtain rate where
    r: "fst (evaporation_rate self weather) = Inr rate"
    and s: "self1 = self\<lparr>capacity := spec_rainfall_step (capacity self) (rain_mm weather)
                               (accumulation_scale self) (evaporation_scale self) rate\<rparr>"
    by blast
  show "SeasonalStreamHabitatModel_update self weather
        = (Inr (), self1\<lparr>capacity := spec_capacity_cap (capacity self1) (max_capacity self),
                         stream_flow := spec_stream_flow_step (stream_flow self) (rain_mm weather)
                                          (stream_decay_scale self)\<rparr>)"
    unfolding seasonal_update_cases r by (simp add: s)
next
  assume a: "0 < mean_temp_C weather + 273.15 \<and> rain_mm weather = 10"
  then have u: "SeasonalStreamHabitatModel_update (SeasonalStreamHabitatModel_init 1 0 0.5 5 100) weather
   = (Inr (), (SeasonalStreamHabitatModel_init 1 0 0.5 5 100)\<lparr>capacity := 10, stream_flow := 5\<rparr>)"
    using scenario_seasonal_update [of weather] by blast
  show "fst (SeasonalStreamHabitatModel_update
               (SeasonalStreamHabitatModel_init 1 0 0.5 5 100) weather) = Inr ()"
    unfolding u by simp
  show "capacity (snd (SeasonalStreamHabitatModel_update
               (SeasonalStreamHabitatModel_init 1 0 0.5 5 100) weather)) = 10"
    unfolding u by simp
  show "stream_flow (snd (SeasonalStreamHabitatModel_update
               (SeasonalStreamHabitatModel_init 1 0 0.5 5 100) weather)) = 5"
    unfolding u by simp
  show "fst (SeasonalStreamHabitatModel_get_current_capacity
                 (snd (SeasonalStreamHabitatModel_update
                    (SeasonalStreamHabitatModel_init 1 0 0.5 5 100) weather))) = Inr 5"
    unfolding u snd_conv scenario_current_capacity by simp
qed

theorem seasonal_update_order_witness:
  "TemporaryRainfallHabitatModel_update (SeasonalStreamHabitatModel_init 1 0 0.5 5 100)
       scenario_weather
     = (Inr (), (SeasonalStreamHabitatModel_init 1 0 0.5 5 100)\<lparr>capacity := 10\<rparr>)
   \<and> SeasonalStreamHabitatModel_update (SeasonalStreamHabitatModel_init 1 0 0.5 5 100)
       scenario_weather
     = (Inr (), (SeasonalStreamHabitatModel_init 1 0 0.5 5 100)
                  \<lparr>capacity := 10, stream_flow := 5\<rparr>)
   \<and> 0 < mean_temp_C scenario_weather + 273.15
   \<and> rain_mm scenario_weather = 10
   \<and> fst (SeasonalStreamHabitatModel_get_current_capacity
            (snd (SeasonalStreamHabitatModel_update
                    (SeasonalStreamHabitatModel_init 1 0 0.5 5 100) scenario_weather))) = Inr 5"
proof -
  have h: "TemporaryRainfallHabitatModel_update (SeasonalStreamHabitatModel_init 1 0 0.5 5 100)
       scenario_weather
     = (Inr (), (SeasonalStreamHabitatModel_init 1 0 0.5 5 100)\<lparr>capacity := 10\<rparr>)"
    by (rule scenario_seasonal_rainfall_update)
  have w: "0 < mean_temp_C scenario_weather + 273.15 \<and> rain_mm scenario_weather = 10"
    by (simp add: scenario_weather_def)
  note t = seasonal_update_order
      [of "SeasonalStreamHabitatModel_init 1 0 0.5 5 100" scenario_weather
        "(SeasonalStreamHabitatModel_init 1 0 0.5 5 100)\<lparr>capacity := 10\<rparr>"]
  from t h have
    "SeasonalStreamHabitatModel_update (SeasonalStreamHabitatModel_init 1 0 0.5 5 100)
       scenario_weather
     = (Inr (), (SeasonalStreamHabitatModel_init 1 0 0.5 5 100)
         \<lparr>capacity := 10,
          capacity := spec_capacity_cap
             (capacity ((SeasonalStreamHabitatModel_init 1 0 0.5 5 100)\<lparr>capacity := 10\<rparr>))
             (max_capacity (SeasonalStreamHabitatModel_init 1 0 0.5 5 100)),
          stream_flow := spec_stream_flow_step
             (stream_flow (SeasonalStreamHabitatModel_init 1 0 0.5 5 100))
             (rain_mm scenario_weather)
             (stream_decay_scale (SeasonalStreamHabitatModel_init 1 0 0.5 5 100))\<rparr>)"
    by blast
  then have u: "SeasonalStreamHabitatModel_update (SeasonalStreamHabitatModel_init 1 0 0.5 5 100)
       scenario_weather
     = (Inr (), (SeasonalStreamHabitatModel_init 1 0 0.5 5 100)
                  \<lparr>capacity := 10, stream_flow := 5\<rparr>)"
    by (simp add: seasonal_init_record spec_capacity_cap_def spec_stream_flow_step_def
        scenario_weather_def)
  from t w have q: "fst (SeasonalStreamHabitatModel_get_current_capacity
            (snd (SeasonalStreamHabitatModel_update
                    (SeasonalStreamHabitatModel_init 1 0 0.5 5 100) scenario_weather))) = Inr 5"
    by blast
  from h u w q show ?thesis by blast
qed


subsection \<open>The capacity query of the seasonal stream model\<close>



lemma current_capacity_state:
  "snd (SeasonalStreamHabitatModel_get_current_capacity self) = self"
  by (simp add: SeasonalStreamHabitatModel_get_current_capacity_def split: sum.splits)






subsection \<open>What the methods leave unchanged\<close>

text \<open>
  C10. \<^verbatim>\<open>update\<close> of the rainfall model changes at most the capacity, and
  \<^verbatim>\<open>update\<close> of the seasonal stream model at most the capacity and the stream flow,
  whether the call returns or raises: every construction parameter keeps its value.
  \<^verbatim>\<open>update\<close> of the constant model, both capacity queries and \<^verbatim>\<open>evaporation_rate\<close>
  leave the object as it was.
\<close>

theorem construction_parameters_unchanged:
  "snd (TemporaryRainfallHabitatModel_update self weather)
     = self\<lparr>capacity := capacity (snd (TemporaryRainfallHabitatModel_update self weather))\<rparr>
   \<and> accumulation_scale (snd (TemporaryRainfallHabitatModel_update self weather))
       = accumulation_scale self
   \<and> evaporation_scale (snd (TemporaryRainfallHabitatModel_update self weather))
       = evaporation_scale self
   \<and> snd (SeasonalStreamHabitatModel_update stream weather)
       = stream\<lparr>capacity := capacity (snd (SeasonalStreamHabitatModel_update stream weather)),
                stream_flow :=
                  stream_flow (snd (SeasonalStreamHabitatModel_update stream weather))\<rparr>
   \<and> accumulation_scale (snd (SeasonalStreamHabitatModel_update stream weather))
       = accumulation_scale stream
   \<and> evaporation_scale (snd (SeasonalStreamHabitatModel_update stream weather))
       = evaporation_scale stream
   \<and> stream_decay_scale (snd (SeasonalStreamHabitatModel_update stream weather))
       = stream_decay_scale stream
   \<and> flow_threshold (snd (SeasonalStreamHabitatModel_update stream weather))
       = flow_threshold stream
   \<and> max_capacity (snd (SeasonalStreamHabitatModel_update stream weather))
       = max_capacity stream
   \<and> snd (ConstantHabitatModel_update constant any_weather) = constant
   \<and> snd (BaseHabitatModel_get_current_capacity self) = self
   \<and> snd (BaseHabitatModel_get_current_capacity stream) = stream
   \<and> snd (SeasonalStreamHabitatModel_get_current_capacity stream) = stream
   \<and> snd (evaporation_rate self weather) = self"
proof -
  have r: "snd (TemporaryRainfallHabitatModel_update self weather)
     = self\<lparr>capacity := capacity (snd (TemporaryRainfallHabitatModel_update self weather))\<rparr>"
    by (rule rainfall_update_frame)
  have s: "snd (SeasonalStreamHabitatModel_update stream weather)
       = stream\<lparr>capacity := capacity (snd (SeasonalStreamHabitatModel_update stream weather)),
                stream_flow :=
                  stream_flow (snd (SeasonalStreamHabitatModel_update stream weather))\<rparr>"
    by (rule seasonal_update_frame)
  have r1: "accumulation_scale (snd (TemporaryRainfallHabitatModel_update self weather))
       = accumulation_scale self"
    by (subst r) simp
  have r2: "evaporation_scale (snd (TemporaryRainfallHabitatModel_update self weather))
       = evaporation_scale self"
    by (subst r) simp
  have s1: "accumulation_scale (snd (SeasonalStreamHabitatModel_update stream weather))
       = accumulation_scale stream"
    by (subst s) simp
  have s2: "evaporation_scale (snd (SeasonalStreamHabitatModel_update stream weather))
       = evaporation_scale stream"
    by (subst s) simp
  have s3: "stream_decay_scale (snd (SeasonalStreamHabitatModel_update stream weather))
       = stream_decay_scale stream"
    by (subst s) simp
  have s4: "flow_threshold (snd (SeasonalStreamHabitatModel_update stream weather))
       = flow_threshold stream"
    by (subst s) simp
  have s5: "max_capacity (snd (SeasonalStreamHabitatModel_update stream weather))
       = max_capacity stream"
    by (subst s) simp
  have c: "snd (ConstantHabitatModel_update constant any_weather) = constant"
    by (simp add: ConstantHabitatModel_update_def)
  have g: "snd (BaseHabitatModel_get_current_capacity self) = self"
    "snd (BaseHabitatModel_get_current_capacity stream) = stream"
    by (simp_all add: BaseHabitatModel_get_current_capacity_def)
  from r r1 r2 s s1 s2 s3 s4 s5 c g current_capacity_state [of stream]
    evaporation_rate_state [of self weather]
  show ?thesis by blast
qed

section \<open>Properties with overflow, infinities and NaN\<close>

subsection \<open>Rounding and range\<close>

lemma overflow_bound_gt: "10 ^ 308 < overflow_bound"
  by (simp add: overflow_bound_def)

lemma overflow_bound_lt: "overflow_bound \<le> 10 ^ 309"
  by (simp add: overflow_bound_def)


lemma overflow_bound_pos: "0 < overflow_bound"
  using overflow_bound_gt by (rule less_trans [rotated]) simp

lemma in_range_small:
  assumes "\<bar>r\<bar> \<le> 10 ^ 308"
  shows "in_range r"
  unfolding in_range_def by (rule le_less_trans [OF assms overflow_bound_gt])

lemma math_exp_fl_nonpos: "x \<le> 0 \<Longrightarrow> math_exp_fl (Finite x) = Inr (Finite (exp x))"
  by simp

lemma math_sqrt_fl_nonneg: "0 \<le> x \<Longrightarrow> math_sqrt_fl (Finite x) = Inr (Finite (sqrt x))"
  by simp

lemma fl_round_in_range: "in_range r \<Longrightarrow> fl_round r = Finite r"
  by (auto simp add: fl_round_def in_range_def)

lemma fl_round_pos: "0 < r \<Longrightarrow> fl_round r = PosInf \<or> fl_round r = Finite r"
  using overflow_bound_pos by (auto simp add: fl_round_def)

lemma fl_round_nonneg: "0 \<le> r \<Longrightarrow> fl_round r = PosInf \<or> fl_round r = Finite r"
  using overflow_bound_pos by (auto simp add: fl_round_def)

lemma fl_round_nonpos: "r \<le> 0 \<Longrightarrow> fl_round r = NegInf \<or> fl_round r = Finite r"
  using overflow_bound_pos by (auto simp add: fl_round_def)

lemma evaporation_rate_fl_state: "snd (evaporation_rate_fl self weather) = self"
  by (simp add: evaporation_rate_fl_def Let_def)

lemma evaporation_rate_fl_self:
  "fst (evaporation_rate_fl self weather) = fst (evaporation_rate_fl other weather)"
  by (simp add: evaporation_rate_fl_def Let_def)


lemma evaporation_rate_fl_unfold:
  "fst (evaporation_rate_fl self weather) =
     (case truediv_fl (Finite (- 5628.1)) (fl_add (mean_temp_C_fl weather) (Finite 273.15)) of
        Inl err \<Rightarrow> Inl err
      | Inr q0 \<Rightarrow>
         (case math_exp_fl q0 of
            Inl err \<Rightarrow> Inl err
          | Inr ex \<Rightarrow>
             (case truediv_fl (Finite (0.01801 / (2 * pi * 8.31446)))
                     (fl_add (mean_temp_C_fl weather) (Finite 273.15)) of
                Inl err \<Rightarrow> Inl err
              | Inr q2 \<Rightarrow>
                 (case math_sqrt_fl q2 of
                    Inl err \<Rightarrow> Inl err
                  | Inr sq \<Rightarrow>
                      Inr (fl_mul (fl_mul (fl_mul ex (Finite 510000000000)) sq)
                             (fl_sub (Finite 1) (rel_humid_fl weather)))))))"
  unfolding evaporation_rate_fl_def Let_def fst_conv ..

text \<open>Above absolute zero the call returns, whatever overflows on the way.\<close>

lemma evaporation_rate_fl_returns:
  assumes t: "mean_temp_C_fl weather = Finite t" and pos: "0 < t + 273.15"
  shows "\<exists>rate. fst (evaporation_rate_fl self weather) = Inr rate"
proof -
  define F2 :: real where "F2 = 0.01801 / (2 * pi * 8.31446)"
  have F2: "0 \<le> F2" by (simp add: F2_def)
  have Tk: "fl_add (mean_temp_C_fl weather) (Finite 273.15) = fl_round (t + 273.15)"
    by (simp add: t)
  from fl_round_pos [OF pos] show ?thesis
  proof
    assume "fl_round (t + 273.15) = PosInf"
    then show ?thesis
      unfolding evaporation_rate_fl_unfold Tk by simp
  next
    assume f: "fl_round (t + 273.15) = Finite (t + 273.15)"
    have nz: "t + 273.15 \<noteq> 0" using pos by simp
    have q0: "- 5628.1 / (t + 273.15) \<le> 0" using pos by (simp add: divide_nonpos_pos)
    have q2: "0 \<le> F2 / (t + 273.15)" using pos F2 by simp
    have e: "\<exists>ex. math_exp_fl (fl_round (- 5628.1 / (t + 273.15))) = Inr ex"
      using fl_round_nonpos [OF q0] math_exp_fl_nonpos [OF q0] math_exp_fl.simps(3) by metis
    have s: "\<exists>sq. math_sqrt_fl (fl_round (F2 / (t + 273.15))) = Inr sq"
      using fl_round_nonneg [OF q2] math_sqrt_fl_nonneg [OF q2] math_sqrt_fl.simps(2) by metis
    from e obtain ex where ex: "math_exp_fl (fl_round (- 5628.1 / (t + 273.15))) = Inr ex" ..
    from s obtain sq where sq: "math_sqrt_fl (fl_round (F2 / (t + 273.15))) = Inr sq" ..
    show ?thesis
      unfolding evaporation_rate_fl_unfold Tk f F2_def [symmetric]
      using nz ex sq by simp
  qed
qed

text \<open>
  For a finite temperature and humidity of ordinary size no step overflows, and the
  result is the rate of the exact formula.
\<close>

lemma evaporation_rate_fl_finite:
  assumes t: "mean_temp_C_fl weather = Finite t" and h: "rel_humid_fl weather = Finite h"
    and lo: "1 \<le> t + 273.15" and hi: "t + 273.15 \<le> 10 ^ 6" and hum: "\<bar>1 - h\<bar> \<le> 10 ^ 6"
  shows "fst (evaporation_rate_fl self weather)
           = Inr (Finite (spec_evaporation_rate \<lparr>mean_temp_C = t, rel_humid = h, rain_mm = r\<rparr>))"
proof -
  define Tk where "Tk = t + 273.15"
  define F2 :: real where "F2 = 0.01801 / (2 * pi * 8.31446)"
  define ex where "ex = exp (- 5628.1 / Tk)"
  define sq where "sq = sqrt (F2 / Tk)"
  have Tk1: "1 \<le> Tk" and Tk6: "Tk \<le> 10 ^ 6" using lo hi by (simp_all add: Tk_def)
  have Tk0: "0 < Tk" using Tk1 by simp
  have F2: "0 \<le> F2" by (simp add: F2_def)
  have "2 * pi * 8.31446 \<ge> 2 * 2 * 8.31446" using pi_ge_two by simp
  then have "0.01801 \<le> 2 * pi * 8.31446" by simp
  then have F2le: "F2 \<le> 1" by (simp add: F2_def)
  have rTk: "fl_add (mean_temp_C_fl weather) (Finite 273.15) = Finite Tk"
    unfolding t fl_add.simps Tk_def [symmetric]
    using Tk0 Tk6 by (intro fl_round_in_range in_range_small) simp
  have "\<bar>- 5628.1 / Tk\<bar> \<le> 5628.1"
    using Tk1 by (simp add: field_simps)
  then have q0r: "fl_round (- 5628.1 / Tk) = Finite (- 5628.1 / Tk)"
    by (intro fl_round_in_range in_range_small) simp
  have q0: "truediv_fl (Finite (- 5628.1)) (Finite Tk) = Inr (Finite (- 5628.1 / Tk))"
    using Tk0 q0r by simp
  have neg: "- 5628.1 / Tk \<le> 0" using Tk0 by (simp add: divide_nonpos_pos)
  have e: "math_exp_fl (Finite (- 5628.1 / Tk)) = Inr (Finite ex)"
    unfolding ex_def using neg by (rule math_exp_fl_nonpos)
  have ex0: "0 \<le> ex" and ex1: "ex \<le> 1" using neg by (simp_all add: ex_def)
  have q2b: "0 \<le> F2 / Tk" and q2c: "F2 / Tk \<le> 1"
    using F2 F2le Tk1 Tk0 by (simp_all add: field_simps)
  have q2r: "fl_round (F2 / Tk) = Finite (F2 / Tk)"
    using q2b q2c by (intro fl_round_in_range in_range_small) simp
  have q2: "truediv_fl (Finite F2) (Finite Tk) = Inr (Finite (F2 / Tk))"
    using Tk0 q2r by simp
  have s: "math_sqrt_fl (Finite (F2 / Tk)) = Inr (Finite sq)"
    unfolding sq_def using q2b by (rule math_sqrt_fl_nonneg)
  have sq0: "0 \<le> sq" using q2b by (simp add: sq_def)
  have sq1: "sq \<le> 1" unfolding sq_def using q2c by (simp add: real_sqrt_le_1_iff)
  have p1b: "0 \<le> ex * 510000000000" "ex * 510000000000 \<le> 510000000000"
    using ex0 ex1 by simp_all
  have p1: "fl_mul (Finite ex) (Finite 510000000000) = Finite (ex * 510000000000)"
    unfolding fl_mul.simps using p1b by (intro fl_round_in_range in_range_small) simp
  have p2b: "0 \<le> ex * 510000000000 * sq" "ex * 510000000000 * sq \<le> 510000000000"
    using p1b sq0 sq1 mult_mono [of "ex * 510000000000" 510000000000 sq 1] by simp_all
  have p2: "fl_mul (Finite (ex * 510000000000)) (Finite sq) = Finite (ex * 510000000000 * sq)"
    unfolding fl_mul.simps using p2b by (intro fl_round_in_range in_range_small) simp
  have hm: "fl_sub (Finite 1) (rel_humid_fl weather) = Finite (1 - h)"
    unfolding h fl_sub_def fl_neg.simps fl_add.simps
    using hum by (simp add: fl_round_in_range in_range_small)
  have "\<bar>ex * 510000000000 * sq * (1 - h)\<bar> = (ex * 510000000000 * sq) * \<bar>1 - h\<bar>"
    unfolding abs_mult [of "ex * 510000000000 * sq" "1 - h"] abs_of_nonneg [OF p2b(1)] ..
  also have "\<dots> \<le> 510000000000 * 10 ^ 6"
    using p2b hum by (intro mult_mono) simp_all
  finally have p3b: "\<bar>ex * 510000000000 * sq * (1 - h)\<bar> \<le> 10 ^ 308" by simp
  have p3: "fl_mul (Finite (ex * 510000000000 * sq)) (Finite (1 - h))
              = Finite (ex * 510000000000 * sq * (1 - h))"
    unfolding fl_mul.simps using p3b by (intro fl_round_in_range in_range_small)
  have "fst (evaporation_rate_fl self weather)
          = Inr (Finite (ex * 510000000000 * sq * (1 - h)))"
    unfolding evaporation_rate_fl_unfold rTk F2_def [symmetric]
    by (simp only: q0 e q2 s p1 p2 hm p3 sum.case)
  then show ?thesis
    by (simp add: spec_evaporation_rate_def spec_A_def spec_B_def spec_C_def spec_Mw_def
        spec_R_def Let_def ex_def sq_def Tk_def F2_def)
qed

lemma scenario_weather_fl_rate:
  "fst (evaporation_rate_fl self scenario_weather_fl)
     = Inr (Finite (spec_evaporation_rate scenario_weather))"
  unfolding scenario_weather_def
  by (rule evaporation_rate_fl_finite) (simp_all add: scenario_weather_fl_def)


subsection \<open>One step on floats\<close>

lemma rainfall_update_fl_cases:
  "TemporaryRainfallHabitatModel_update_fl self weather =
     (case fst (evaporation_rate_fl self weather) of
        Inl err \<Rightarrow>
          (Inl err, self\<lparr>capacity_fl :=
                       fl_add (capacity_fl self)
                         (fl_mul (rain_mm_fl weather) (accumulation_scale_fl self))\<rparr>)
      | Inr rate \<Rightarrow>
          (Inr (), self\<lparr>capacity_fl :=
                      spec_rainfall_step_fl (capacity_fl self) (rain_mm_fl weather)
                        (accumulation_scale_fl self) (evaporation_scale_fl self) rate\<rparr>))"
proof -
  let ?self1 = "self\<lparr>capacity_fl :=
                   fl_add (capacity_fl self)
                     (fl_mul (rain_mm_fl weather) (accumulation_scale_fl self))\<rparr>"
  have e: "evaporation_rate_fl ?self1 weather = (fst (evaporation_rate_fl self weather), ?self1)"
    using evaporation_rate_fl_state [of ?self1 weather]
      evaporation_rate_fl_self [of ?self1 weather self]
    by (metis prod.collapse)
  show ?thesis
    unfolding TemporaryRainfallHabitatModel_update_fl_def Let_def e
    by (simp add: spec_rainfall_step_fl_def Let_def split: sum.splits)
qed

lemma seasonal_update_fl_cases:
  "SeasonalStreamHabitatModel_update_fl self weather =
     (case fst (evaporation_rate_fl self weather) of
        Inl err \<Rightarrow>
          (Inl err, self\<lparr>capacity_fl :=
                       fl_add (capacity_fl self)
                         (fl_mul (rain_mm_fl weather) (accumulation_scale_fl self))\<rparr>)
      | Inr rate \<Rightarrow>
          (Inr (), self\<lparr>capacity_fl :=
                      spec_capacity_cap_fl
                        (spec_rainfall_step_fl (capacity_fl self) (rain_mm_fl weather)
                           (accumulation_scale_fl self) (evaporation_scale_fl self) rate)
                        (max_capacity_fl self),
                    stream_flow_fl :=
                      spec_stream_flow_step_fl (stream_flow_fl self) (rain_mm_fl weather)
                        (stream_decay_scale_fl self)\<rparr>))"
  unfolding SeasonalStreamHabitatModel_update_fl_def rainfall_update_fl_cases
  by (simp add: spec_capacity_cap_fl_def spec_stream_flow_step_fl_def Let_def split: sum.splits)

lemma rainfall_update_fl_returns:
  assumes "mean_temp_C_fl weather = Finite t" and "0 < t + 273.15"
  shows "fst (TemporaryRainfallHabitatModel_update_fl self weather) = Inr ()"
  using evaporation_rate_fl_returns [OF assms, of self]
  by (auto simp add: rainfall_update_fl_cases)

lemma seasonal_update_fl_returns:
  assumes "mean_temp_C_fl weather = Finite t" and "0 < t + 273.15"
  shows "fst (SeasonalStreamHabitatModel_update_fl self weather) = Inr ()"
  using evaporation_rate_fl_returns [OF assms, of self]
  by (auto simp add: seasonal_update_fl_cases)

text \<open>What the two clamps establish, whatever the arithmetic produced.\<close>

lemma fl_lt_irrefl: "\<not> fl_lt x x"
  by (cases x) simp_all

lemma not_negative_cases: "\<not> fl_lt x (Finite 0) \<Longrightarrow> x = NaN \<or> fl_le (Finite 0) x"
  by (cases x) simp_all

lemma not_above_cases: "\<not> fl_lt m x \<Longrightarrow> x = NaN \<or> m = NaN \<or> fl_le x m"
  by (cases x; cases m) simp_all

lemma spec_rainfall_step_fl_not_negative:
  "\<not> fl_lt (spec_rainfall_step_fl c rain acc evap rate) (Finite 0)"
  by (simp add: spec_rainfall_step_fl_def Let_def)

lemma spec_capacity_cap_fl_not_above: "\<not> fl_lt m (spec_capacity_cap_fl c m)"
  by (simp add: spec_capacity_cap_fl_def fl_lt_irrefl)

lemma spec_capacity_cap_fl_not_negative:
  assumes "\<not> fl_lt c (Finite 0)" and "fl_le (Finite 0) m"
  shows "\<not> fl_lt (spec_capacity_cap_fl c m) (Finite 0)"
  using assms by (cases m) (simp_all add: spec_capacity_cap_fl_def)

lemma rainfall_update_fl_not_negative:
  assumes "TemporaryRainfallHabitatModel_update_fl self weather = (Inr u, self1)"
  shows "\<not> fl_lt (capacity_fl self1) (Finite 0)"
  using assms unfolding rainfall_update_fl_cases
  by (auto simp add: spec_rainfall_step_fl_not_negative split: sum.splits)

lemma seasonal_update_fl_bounds:
  assumes "SeasonalStreamHabitatModel_update_fl self weather = (Inr u, self1)"
  shows "max_capacity_fl self1 = max_capacity_fl self"
    and "\<not> fl_lt (max_capacity_fl self) (capacity_fl self1)"
    and "fl_le (Finite 0) (max_capacity_fl self) \<Longrightarrow> \<not> fl_lt (capacity_fl self1) (Finite 0)"
  using assms unfolding seasonal_update_fl_cases
  by (auto simp add: spec_capacity_cap_fl_not_above spec_capacity_cap_fl_not_negative
      spec_rainfall_step_fl_not_negative split: sum.splits)

text \<open>
  Where no step overflows, the float step is the exact step: the definitions over
  the reals describe the float program on these inputs.
\<close>

lemma spec_rainfall_step_fl_in_range:
  assumes "step_in_range c rain acc evap rate"
  shows "spec_rainfall_step_fl (Finite c) (Finite rain) (Finite acc) (Finite evap) (Finite rate)
           = Finite (spec_rainfall_step c rain acc evap rate)"
proof -
  from assms have r: "fl_round (rain * acc) = Finite (rain * acc)"
    "fl_round (c + rain * acc) = Finite (c + rain * acc)"
    "fl_round ((c + rain * acc) * evap) = Finite ((c + rain * acc) * evap)"
    "fl_round ((c + rain * acc) * evap * rate) = Finite ((c + rain * acc) * evap * rate)"
    "fl_round (c + rain * acc - (c + rain * acc) * evap * rate)
       = Finite (c + rain * acc - (c + rain * acc) * evap * rate)"
    by (simp_all add: step_in_range_def fl_round_in_range)
  have m1: "fl_mul (Finite rain) (Finite acc) = Finite (rain * acc)"
    by (simp only: fl_mul.simps r)
  have a1: "fl_add (Finite c) (Finite (rain * acc)) = Finite (c + rain * acc)"
    by (simp only: fl_add.simps r)
  have m2: "fl_mul (Finite (c + rain * acc)) (Finite evap) = Finite ((c + rain * acc) * evap)"
    by (simp only: fl_mul.simps r)
  have m3: "fl_mul (Finite ((c + rain * acc) * evap)) (Finite rate)
              = Finite ((c + rain * acc) * evap * rate)"
    by (simp only: fl_mul.simps r)
  have s1: "fl_sub (Finite (c + rain * acc)) (Finite ((c + rain * acc) * evap * rate))
              = Finite (c + rain * acc - (c + rain * acc) * evap * rate)"
    unfolding fl_sub_def fl_neg.simps fl_add.simps
    using r(5) by simp
  show ?thesis
    unfolding spec_rainfall_step_fl_def spec_rainfall_step_def Let_def m1 a1 m2 m3 s1
    by simp
qed

lemma step_in_range_no_evaporation:
  assumes "\<bar>rain * acc\<bar> \<le> 10 ^ 308" and "\<bar>c + rain * acc\<bar> \<le> 10 ^ 308"
  shows "step_in_range c rain acc 0 rate"
  using assms by (simp add: step_in_range_def in_range_small)




subsection \<open>Steps on concrete inputs\<close>

lemma fl_round_small: "\<bar>r\<bar> \<le> 10 ^ 308 \<Longrightarrow> fl_round r = Finite r"
  by (rule fl_round_in_range) (rule in_range_small)

lemma step_no_evaporation:
  assumes "0 \<le> c + rain * acc" and "\<bar>rain * acc\<bar> \<le> 10 ^ 308"
    and "\<bar>c + rain * acc\<bar> \<le> 10 ^ 308"
  shows "spec_rainfall_step_fl (Finite c) (Finite rain) (Finite acc) (Finite 0) (Finite rate)
           = Finite (c + rain * acc)"
  unfolding spec_rainfall_step_fl_in_range [OF step_in_range_no_evaporation [OF assms(2,3)]]
  using assms(1) by (simp add: spec_rainfall_step_def)

lemma step_overflow_nan:
  assumes "overflow_bound \<le> rain * acc"
  shows "spec_rainfall_step_fl (Finite 0) (Finite rain) (Finite acc) (Finite 0) rate = NaN"
proof -
  have m: "fl_mul (Finite rain) (Finite acc) = PosInf"
    using assms by (simp add: fl_round_def)
  show ?thesis
    unfolding spec_rainfall_step_fl_def Let_def m
    by (simp add: inf_times_def fl_sub_def)
qed

lemma overflow_at_ten: "overflow_bound \<le> 10 * 10 ^ 308"
  using overflow_bound_lt by simp

lemma scenario_weather_fl_fields:
  "mean_temp_C_fl scenario_weather_fl = Finite 25"
  "rel_humid_fl scenario_weather_fl = Finite 0.8"
  "rain_mm_fl scenario_weather_fl = Finite 10"
  by (simp_all add: scenario_weather_fl_def)

lemma scenario_rainfall_run_fl:
  "update_all TemporaryRainfallHabitatModel_update_fl
     (TemporaryRainfallHabitatModel_init_fl (Finite 1) (Finite 0))
     [scenario_weather_fl, scenario_weather_fl]
   = (Inr (), \<lparr>capacity_fl = Finite 20, accumulation_scale_fl = Finite 1,
               evaporation_scale_fl = Finite 0\<rparr>)"
  unfolding update_all.simps rainfall_update_fl_cases scenario_weather_fl_rate
  by (simp add: TemporaryRainfallHabitatModel_init_fl_def scenario_weather_fl_fields
      step_no_evaporation)

lemma scenario_seasonal_run_fl:
  "update_all SeasonalStreamHabitatModel_update_fl
     (SeasonalStreamHabitatModel_init_fl (Finite 1) (Finite 0) (Finite 0.5) (Finite 5) (Finite 15))
     [scenario_weather_fl, scenario_weather_fl]
   = (Inr (), \<lparr>capacity_fl = Finite 15, accumulation_scale_fl = Finite 1,
               evaporation_scale_fl = Finite 0, stream_flow_fl = Finite 7.5,
               stream_decay_scale_fl = Finite 0.5, flow_threshold_fl = Finite 5,
               max_capacity_fl = Finite 15\<rparr>)"
  unfolding update_all.simps seasonal_update_fl_cases scenario_weather_fl_rate
  by (simp add: SeasonalStreamHabitatModel_init_fl_def scenario_weather_fl_fields
      step_no_evaporation spec_capacity_cap_fl_def spec_stream_flow_step_fl_def
      fl_sub_def fl_round_small)

lemma scenario_returns:
  "\<forall>w \<in> set [scenario_weather_fl, scenario_weather_fl].
      \<exists>t. mean_temp_C_fl w = Finite t \<and> 0 < t + 273.15"
  by (simp add: scenario_weather_fl_fields)

subsection \<open>Sequences of updates on floats\<close>

lemma rainfall_run_fl_returns:
  assumes "\<forall>w \<in> set ws. \<exists>t. mean_temp_C_fl w = Finite t \<and> 0 < t + 273.15"
  shows "fst (update_all TemporaryRainfallHabitatModel_update_fl self ws) = Inr ()"
proof (rule update_all_returns)
  fix s :: "'a TemporaryRainfallHabitatModel_fl_scheme" and w
  assume "w \<in> set ws"
  with assms obtain t where "mean_temp_C_fl w = Finite t" and "0 < t + 273.15" by blast
  then show "fst (TemporaryRainfallHabitatModel_update_fl s w) = Inr ()"
    by (rule rainfall_update_fl_returns)
qed

lemma seasonal_run_fl_returns:
  assumes "\<forall>w \<in> set ws. \<exists>t. mean_temp_C_fl w = Finite t \<and> 0 < t + 273.15"
  shows "fst (update_all SeasonalStreamHabitatModel_update_fl self ws) = Inr ()"
proof (rule update_all_returns)
  fix s :: "'a SeasonalStreamHabitatModel_fl_scheme" and w
  assume "w \<in> set ws"
  with assms obtain t where "mean_temp_C_fl w = Finite t" and "0 < t + 273.15" by blast
  then show "fst (SeasonalStreamHabitatModel_update_fl s w) = Inr ()"
    by (rule seasonal_update_fl_returns)
qed

lemma rainfall_run_fl_not_negative:
  assumes "\<not> fl_lt (capacity_fl self) (Finite 0)"
    and "update_all TemporaryRainfallHabitatModel_update_fl self ws = (Inr u, self1)"
  shows "\<not> fl_lt (capacity_fl self1) (Finite 0)"
proof (cases "ws = []")
  case True
  with assms show ?thesis by simp
next
  case False
  have "True \<and> \<not> fl_lt (capacity_fl self1) (Finite 0)"
  proof (rule update_all_invariant
      [where I = "\<lambda>s. True" and Q = "\<lambda>s. \<not> fl_lt (capacity_fl s) (Finite 0)",
        OF _ TrueI False assms(2)])
    fix s w v s1
    assume "TemporaryRainfallHabitatModel_update_fl s w = (Inr v, s1)"
    then show "True \<and> \<not> fl_lt (capacity_fl s1) (Finite 0)"
      by (simp add: rainfall_update_fl_not_negative)
  qed
  then show ?thesis by simp
qed

lemma seasonal_run_fl_bounds:
  assumes "ws \<noteq> []"
    and "update_all SeasonalStreamHabitatModel_update_fl self ws = (Inr u, self1)"
  shows "max_capacity_fl self1 = max_capacity_fl self"
    and "\<not> fl_lt (max_capacity_fl self) (capacity_fl self1)"
    and "fl_le (Finite 0) (max_capacity_fl self) \<Longrightarrow> \<not> fl_lt (capacity_fl self1) (Finite 0)"
proof -
  have "max_capacity_fl self1 = max_capacity_fl self
        \<and> (\<not> fl_lt (max_capacity_fl self) (capacity_fl self1)
           \<and> (fl_le (Finite 0) (max_capacity_fl self)
                \<longrightarrow> \<not> fl_lt (capacity_fl self1) (Finite 0)))"
  proof (rule update_all_invariant
      [where I = "\<lambda>s. max_capacity_fl s = max_capacity_fl self"
        and Q = "\<lambda>s. \<not> fl_lt (max_capacity_fl self) (capacity_fl s)
                      \<and> (fl_le (Finite 0) (max_capacity_fl self)
                           \<longrightarrow> \<not> fl_lt (capacity_fl s) (Finite 0))",
        OF _ refl assms])
    fix s w v s1
    assume i: "max_capacity_fl s = max_capacity_fl self"
      and st: "SeasonalStreamHabitatModel_update_fl s w = (Inr v, s1)"
    show "max_capacity_fl s1 = max_capacity_fl self
          \<and> (\<not> fl_lt (max_capacity_fl self) (capacity_fl s1)
             \<and> (fl_le (Finite 0) (max_capacity_fl self)
                  \<longrightarrow> \<not> fl_lt (capacity_fl s1) (Finite 0)))"
      using seasonal_update_fl_bounds [OF st] i by simp
  qed
  then show "max_capacity_fl self1 = max_capacity_fl self"
    and "\<not> fl_lt (max_capacity_fl self) (capacity_fl self1)"
    and "fl_le (Finite 0) (max_capacity_fl self) \<Longrightarrow> \<not> fl_lt (capacity_fl self1) (Finite 0)"
    by simp_all
qed


subsection \<open>Bounds on the stored capacity\<close>

text \<open>
  C5 (as amended). After every sequence of update calls that return, starting from
  construction, the stored capacity of a TemporaryRainfallHabitatModel is never
  negative: it is NaN or at least 0. The same holds for a SeasonalStreamHabitatModel
  provided \<open>max_capacity \<ge> 0\<close>. The calls return whenever every temperature is finite
  and above absolute zero.
\<close>

theorem capacity_not_negative:
  "(update_all TemporaryRainfallHabitatModel_update_fl
      (TemporaryRainfallHabitatModel_init_fl a e) ws = (Inr (), self1)
    \<longrightarrow> capacity_fl self1 = NaN \<or> fl_le (Finite 0) (capacity_fl self1))
   \<and> (fl_le (Finite 0) m \<and>
      update_all SeasonalStreamHabitatModel_update_fl
        (SeasonalStreamHabitatModel_init_fl a e d f m) ws = (Inr (), self2)
      \<longrightarrow> capacity_fl self2 = NaN \<or> fl_le (Finite 0) (capacity_fl self2))
   \<and> ((\<forall>w \<in> set ws. \<exists>t. mean_temp_C_fl w = Finite t \<and> 0 < t + 273.15) \<longrightarrow>
        fst (update_all TemporaryRainfallHabitatModel_update_fl
               (TemporaryRainfallHabitatModel_init_fl a e) ws) = Inr ()
        \<and> fst (update_all SeasonalStreamHabitatModel_update_fl
               (SeasonalStreamHabitatModel_init_fl a e d f m) ws) = Inr ())"
proof (intro conjI impI)
  assume run: "update_all TemporaryRainfallHabitatModel_update_fl
      (TemporaryRainfallHabitatModel_init_fl a e) ws = (Inr (), self1)"
  have "\<not> fl_lt (capacity_fl (TemporaryRainfallHabitatModel_init_fl a e)) (Finite 0)"
    by (simp add: TemporaryRainfallHabitatModel_init_fl_def)
  then have "\<not> fl_lt (capacity_fl self1) (Finite 0)"
    using run by (rule rainfall_run_fl_not_negative)
  then show "capacity_fl self1 = NaN \<or> fl_le (Finite 0) (capacity_fl self1)"
    by (rule not_negative_cases)
next
  assume a: "fl_le (Finite 0) m \<and>
      update_all SeasonalStreamHabitatModel_update_fl
        (SeasonalStreamHabitatModel_init_fl a e d f m) ws = (Inr (), self2)"
  have "\<not> fl_lt (capacity_fl self2) (Finite 0)"
  proof (cases "ws = []")
    case True
    with a show ?thesis by (auto simp add: SeasonalStreamHabitatModel_init_fl_def)
  next
    case False
    have "fl_le (Finite 0) (max_capacity_fl (SeasonalStreamHabitatModel_init_fl a e d f m))"
      using a by (simp add: SeasonalStreamHabitatModel_init_fl_def)
    with seasonal_run_fl_bounds(3) [OF False] a show ?thesis by blast
  qed
  then show "capacity_fl self2 = NaN \<or> fl_le (Finite 0) (capacity_fl self2)"
    by (rule not_negative_cases)
next
  assume t: "\<forall>w \<in> set ws. \<exists>t. mean_temp_C_fl w = Finite t \<and> 0 < t + 273.15"
  then show "fst (update_all TemporaryRainfallHabitatModel_update_fl
               (TemporaryRainfallHabitatModel_init_fl a e) ws) = Inr ()"
    by (rule rainfall_run_fl_returns)
  from t show "fst (update_all SeasonalStreamHabitatModel_update_fl
               (SeasonalStreamHabitatModel_init_fl a e d f m) ws) = Inr ()"
    by (rule seasonal_run_fl_returns)
qed

theorem capacity_not_negative_witness:
  "update_all TemporaryRainfallHabitatModel_update_fl
     (TemporaryRainfallHabitatModel_init_fl (Finite 1) (Finite 0))
     [scenario_weather_fl, scenario_weather_fl]
   = (Inr (), \<lparr>capacity_fl = Finite 20, accumulation_scale_fl = Finite 1,
               evaporation_scale_fl = Finite 0\<rparr>)
   \<and> fl_le (Finite 0) (Finite 20)
   \<and> fl_le (Finite 0) (Finite 15)
   \<and> update_all SeasonalStreamHabitatModel_update_fl
     (SeasonalStreamHabitatModel_init_fl (Finite 1) (Finite 0) (Finite 0.5) (Finite 5) (Finite 15))
     [scenario_weather_fl, scenario_weather_fl]
   = (Inr (), \<lparr>capacity_fl = Finite 15, accumulation_scale_fl = Finite 1,
               evaporation_scale_fl = Finite 0, stream_flow_fl = Finite 7.5,
               stream_decay_scale_fl = Finite 0.5, flow_threshold_fl = Finite 5,
               max_capacity_fl = Finite 15\<rparr>)
   \<and> fst (update_all TemporaryRainfallHabitatModel_update_fl
            (TemporaryRainfallHabitatModel_init_fl (Finite 1) (Finite 0))
            [scenario_weather_fl, scenario_weather_fl]) = Inr ()
   \<and> fst (update_all SeasonalStreamHabitatModel_update_fl
            (SeasonalStreamHabitatModel_init_fl (Finite 1) (Finite 0) (Finite 0.5) (Finite 5)
               (Finite 15))
            [scenario_weather_fl, scenario_weather_fl]) = Inr ()"
proof -
  note t = capacity_not_negative
    [of "Finite 1" "Finite 0" "[scenario_weather_fl, scenario_weather_fl]"
      "\<lparr>capacity_fl = Finite 20, accumulation_scale_fl = Finite 1,
        evaporation_scale_fl = Finite 0\<rparr>"
      "Finite 15" "Finite 0.5" "Finite 5"
      "\<lparr>capacity_fl = Finite 15, accumulation_scale_fl = Finite 1,
               evaporation_scale_fl = Finite 0, stream_flow_fl = Finite 7.5,
               stream_decay_scale_fl = Finite 0.5, flow_threshold_fl = Finite 5,
               max_capacity_fl = Finite 15\<rparr>"]
  have m: "fl_le (Finite 0) (Finite 15)" by simp
  from t scenario_rainfall_run_fl
  have c1: "capacity_fl \<lparr>capacity_fl = Finite 20, accumulation_scale_fl = Finite 1,
        evaporation_scale_fl = Finite 0\<rparr> = NaN
      \<or> fl_le (Finite 0) (capacity_fl \<lparr>capacity_fl = Finite 20,
           accumulation_scale_fl = Finite 1, evaporation_scale_fl = Finite 0\<rparr>)"
    by blast
  then have c1': "fl_le (Finite 0) (Finite 20)" by simp
  from t scenario_returns
  have r: "fst (update_all TemporaryRainfallHabitatModel_update_fl
            (TemporaryRainfallHabitatModel_init_fl (Finite 1) (Finite 0))
            [scenario_weather_fl, scenario_weather_fl]) = Inr ()
   \<and> fst (update_all SeasonalStreamHabitatModel_update_fl
            (SeasonalStreamHabitatModel_init_fl (Finite 1) (Finite 0) (Finite 0.5) (Finite 5)
               (Finite 15))
            [scenario_weather_fl, scenario_weather_fl]) = Inr ()"
    by blast
  from scenario_rainfall_run_fl c1' m scenario_seasonal_run_fl r show ?thesis by blast
qed

text \<open>
  The claim as stated fails in two ways. A product that overflows makes the capacity
  NaN, which no clamp catches: constructed with accumulation scale \<open>10^308\<close>, the
  rainfall model stores NaN after one update with \<open>rain_mm = 10\<close>. And a negative
  \<open>max_capacity\<close> caps the capacity below zero.
\<close>

theorem capacity_not_negative_counterexample:
  "update_all TemporaryRainfallHabitatModel_update_fl
     (TemporaryRainfallHabitatModel_init_fl (Finite (10 ^ 308)) (Finite 0))
     [\<lparr>mean_temp_C_fl = Finite 25, rel_humid_fl = Finite 0.8, rain_mm_fl = Finite 10\<rparr>]
   = (Inr (), \<lparr>capacity_fl = NaN, accumulation_scale_fl = Finite (10 ^ 308),
               evaporation_scale_fl = Finite 0\<rparr>)
   \<and> \<not> fl_le (Finite 0) NaN
   \<and> update_all SeasonalStreamHabitatModel_update_fl
     (SeasonalStreamHabitatModel_init_fl (Finite 1) (Finite 0) (Finite 0.5) (Finite 5)
        (Finite (- 1)))
     [\<lparr>mean_temp_C_fl = Finite 25, rel_humid_fl = Finite 0.8, rain_mm_fl = Finite 10\<rparr>]
   = (Inr (), \<lparr>capacity_fl = Finite (- 1), accumulation_scale_fl = Finite 1,
               evaporation_scale_fl = Finite 0, stream_flow_fl = Finite 5,
               stream_decay_scale_fl = Finite 0.5, flow_threshold_fl = Finite 5,
               max_capacity_fl = Finite (- 1)\<rparr>)
   \<and> \<not> fl_le (Finite 0) (Finite (- 1))"
proof -
  have 1: "update_all TemporaryRainfallHabitatModel_update_fl
     (TemporaryRainfallHabitatModel_init_fl (Finite (10 ^ 308)) (Finite 0))
     [scenario_weather_fl]
   = (Inr (), \<lparr>capacity_fl = NaN, accumulation_scale_fl = Finite (10 ^ 308),
               evaporation_scale_fl = Finite 0\<rparr>)"
    unfolding update_all.simps rainfall_update_fl_cases scenario_weather_fl_rate
    using step_overflow_nan [OF overflow_at_ten]
    by (simp add: TemporaryRainfallHabitatModel_init_fl_def scenario_weather_fl_fields)
  have 2: "update_all SeasonalStreamHabitatModel_update_fl
     (SeasonalStreamHabitatModel_init_fl (Finite 1) (Finite 0) (Finite 0.5) (Finite 5)
        (Finite (- 1)))
     [scenario_weather_fl]
   = (Inr (), \<lparr>capacity_fl = Finite (- 1), accumulation_scale_fl = Finite 1,
               evaporation_scale_fl = Finite 0, stream_flow_fl = Finite 5,
               stream_decay_scale_fl = Finite 0.5, flow_threshold_fl = Finite 5,
               max_capacity_fl = Finite (- 1)\<rparr>)"
    unfolding update_all.simps seasonal_update_fl_cases scenario_weather_fl_rate
    by (simp add: SeasonalStreamHabitatModel_init_fl_def scenario_weather_fl_fields
        step_no_evaporation spec_capacity_cap_fl_def spec_stream_flow_step_fl_def
        fl_sub_def fl_round_small)
  show ?thesis
    unfolding scenario_weather_fl_def [symmetric] 1 2 by simp
qed


text \<open>
  C6 (as amended). After every non-empty sequence of update calls on a
  SeasonalStreamHabitatModel that return, starting from construction, \<open>max_capacity\<close>
  has its constructed value and the stored capacity does not exceed it: the capacity
  is at most \<open>max_capacity\<close> unless one of the two is NaN. Every non-empty sequence is
  covered, so this holds after each call of a sequence. The calls return whenever
  every temperature is finite and above absolute zero.
\<close>

theorem capacity_not_above_max:
  "(ws \<noteq> [] \<and>
    update_all SeasonalStreamHabitatModel_update_fl
      (SeasonalStreamHabitatModel_init_fl a e d f m) ws = (Inr (), self1)
    \<longrightarrow> max_capacity_fl self1 = m
        \<and> \<not> fl_lt m (capacity_fl self1)
        \<and> (capacity_fl self1 = NaN \<or> m = NaN \<or> fl_le (capacity_fl self1) m))
   \<and> ((\<forall>w \<in> set ws. \<exists>t. mean_temp_C_fl w = Finite t \<and> 0 < t + 273.15) \<longrightarrow>
        fst (update_all SeasonalStreamHabitatModel_update_fl
               (SeasonalStreamHabitatModel_init_fl a e d f m) ws) = Inr ())"
proof (intro conjI impI)
  assume a: "ws \<noteq> [] \<and>
    update_all SeasonalStreamHabitatModel_update_fl
      (SeasonalStreamHabitatModel_init_fl a e d f m) ws = (Inr (), self1)"
  have m: "max_capacity_fl (SeasonalStreamHabitatModel_init_fl a e d f m) = m"
    by (simp add: SeasonalStreamHabitatModel_init_fl_def)
  from a seasonal_run_fl_bounds(1,2)
    [of ws "SeasonalStreamHabitatModel_init_fl a e d f m" "()" self1]
  show "max_capacity_fl self1 = m" and n: "\<not> fl_lt m (capacity_fl self1)"
    by (simp_all add: m)
  from n show "capacity_fl self1 = NaN \<or> m = NaN \<or> fl_le (capacity_fl self1) m"
    by (rule not_above_cases)
next
  assume "\<forall>w \<in> set ws. \<exists>t. mean_temp_C_fl w = Finite t \<and> 0 < t + 273.15"
  then show "fst (update_all SeasonalStreamHabitatModel_update_fl
               (SeasonalStreamHabitatModel_init_fl a e d f m) ws) = Inr ()"
    by (rule seasonal_run_fl_returns)
qed

theorem capacity_not_above_max_witness:
  "update_all SeasonalStreamHabitatModel_update_fl
     (SeasonalStreamHabitatModel_init_fl (Finite 1) (Finite 0) (Finite 0.5) (Finite 5) (Finite 15))
     [scenario_weather_fl, scenario_weather_fl]
   = (Inr (), \<lparr>capacity_fl = Finite 15, accumulation_scale_fl = Finite 1,
               evaporation_scale_fl = Finite 0, stream_flow_fl = Finite 7.5,
               stream_decay_scale_fl = Finite 0.5, flow_threshold_fl = Finite 5,
               max_capacity_fl = Finite 15\<rparr>)
   \<and> fl_le (Finite 15) (Finite 15)
   \<and> \<not> fl_lt (Finite 15) (Finite 15)
   \<and> fst (update_all SeasonalStreamHabitatModel_update_fl
            (SeasonalStreamHabitatModel_init_fl (Finite 1) (Finite 0) (Finite 0.5) (Finite 5)
               (Finite 15))
            [scenario_weather_fl, scenario_weather_fl]) = Inr ()"
proof -
  note t = capacity_not_above_max
    [of "[scenario_weather_fl, scenario_weather_fl]"
      "Finite 1" "Finite 0" "Finite 0.5" "Finite 5" "Finite 15"
      "\<lparr>capacity_fl = Finite 15, accumulation_scale_fl = Finite 1,
               evaporation_scale_fl = Finite 0, stream_flow_fl = Finite 7.5,
               stream_decay_scale_fl = Finite 0.5, flow_threshold_fl = Finite 5,
               max_capacity_fl = Finite 15\<rparr>"]
  have ne: "[scenario_weather_fl, scenario_weather_fl] \<noteq> []" by simp
  from t ne scenario_seasonal_run_fl
  have "\<not> fl_lt (Finite 15) (capacity_fl \<lparr>capacity_fl = Finite 15,
               accumulation_scale_fl = Finite 1,
               evaporation_scale_fl = Finite 0, stream_flow_fl = Finite 7.5,
               stream_decay_scale_fl = Finite 0.5, flow_threshold_fl = Finite 5,
               max_capacity_fl = Finite 15\<rparr>)"
    by blast
  then have b: "\<not> fl_lt (Finite 15) (Finite 15)" "fl_le (Finite 15) (Finite 15)" by simp_all
  from t scenario_returns
  have r: "fst (update_all SeasonalStreamHabitatModel_update_fl
            (SeasonalStreamHabitatModel_init_fl (Finite 1) (Finite 0) (Finite 0.5) (Finite 5)
               (Finite 15))
            [scenario_weather_fl, scenario_weather_fl]) = Inr ()"
    by blast
  from scenario_seasonal_run_fl b r show ?thesis by blast
qed

text \<open>
  The claim as stated fails in two ways. Constructed with accumulation scale
  \<open>10^308\<close> and \<open>max_capacity = 100\<close>, the model stores NaN after one update with
  \<open>rain_mm = 10\<close>, and the cap does not fire. And a call that raises does not reach the
  cap: at \<open>-273.15\<close> degrees the update raises ZeroDivisionError after the rainfall was
  added, leaving capacity 10 above \<open>max_capacity = 4\<close>.
\<close>

theorem capacity_not_above_max_counterexample:
  "update_all SeasonalStreamHabitatModel_update_fl
     (SeasonalStreamHabitatModel_init_fl (Finite (10 ^ 308)) (Finite 0) (Finite 0.5) (Finite 5)
        (Finite 100))
     [\<lparr>mean_temp_C_fl = Finite 25, rel_humid_fl = Finite 0.8, rain_mm_fl = Finite 10\<rparr>]
   = (Inr (), \<lparr>capacity_fl = NaN, accumulation_scale_fl = Finite (10 ^ 308),
               evaporation_scale_fl = Finite 0, stream_flow_fl = Finite 5,
               stream_decay_scale_fl = Finite 0.5, flow_threshold_fl = Finite 5,
               max_capacity_fl = Finite 100\<rparr>)
   \<and> \<not> fl_le NaN (Finite 100)
   \<and> SeasonalStreamHabitatModel_update_fl
     (SeasonalStreamHabitatModel_init_fl (Finite 1) (Finite 0) (Finite 0.5) (Finite 5) (Finite 4))
     \<lparr>mean_temp_C_fl = Finite (- 273.15), rel_humid_fl = Finite 0.8, rain_mm_fl = Finite 10\<rparr>
   = (Inl ZeroDivisionError,
      \<lparr>capacity_fl = Finite 10, accumulation_scale_fl = Finite 1,
               evaporation_scale_fl = Finite 0, stream_flow_fl = Finite 0,
               stream_decay_scale_fl = Finite 0.5, flow_threshold_fl = Finite 5,
               max_capacity_fl = Finite 4\<rparr>)
   \<and> \<not> fl_le (Finite 10) (Finite 4)"
proof -
  have 1: "update_all SeasonalStreamHabitatModel_update_fl
     (SeasonalStreamHabitatModel_init_fl (Finite (10 ^ 308)) (Finite 0) (Finite 0.5) (Finite 5)
        (Finite 100))
     [scenario_weather_fl]
   = (Inr (), \<lparr>capacity_fl = NaN, accumulation_scale_fl = Finite (10 ^ 308),
               evaporation_scale_fl = Finite 0, stream_flow_fl = Finite 5,
               stream_decay_scale_fl = Finite 0.5, flow_threshold_fl = Finite 5,
               max_capacity_fl = Finite 100\<rparr>)"
    unfolding update_all.simps seasonal_update_fl_cases scenario_weather_fl_rate
    using step_overflow_nan [OF overflow_at_ten]
    by (simp add: SeasonalStreamHabitatModel_init_fl_def scenario_weather_fl_fields
        spec_capacity_cap_fl_def spec_stream_flow_step_fl_def fl_sub_def fl_round_small)
  have z: "fst (evaporation_rate_fl self
       \<lparr>mean_temp_C_fl = Finite (- 273.15), rel_humid_fl = Finite 0.8, rain_mm_fl = Finite 10\<rparr>)
     = Inl ZeroDivisionError" for self :: SeasonalStreamHabitatModel_fl
    unfolding evaporation_rate_fl_unfold by (simp add: fl_round_small)
  have 2: "SeasonalStreamHabitatModel_update_fl
     (SeasonalStreamHabitatModel_init_fl (Finite 1) (Finite 0) (Finite 0.5) (Finite 5) (Finite 4))
     \<lparr>mean_temp_C_fl = Finite (- 273.15), rel_humid_fl = Finite 0.8, rain_mm_fl = Finite 10\<rparr>
   = (Inl ZeroDivisionError,
      \<lparr>capacity_fl = Finite 10, accumulation_scale_fl = Finite 1,
               evaporation_scale_fl = Finite 0, stream_flow_fl = Finite 0,
               stream_decay_scale_fl = Finite 0.5, flow_threshold_fl = Finite 5,
               max_capacity_fl = Finite 4\<rparr>)"
    unfolding seasonal_update_fl_cases z
    by (simp add: SeasonalStreamHabitatModel_init_fl_def fl_round_small)
  show ?thesis
    unfolding scenario_weather_fl_def [symmetric] 1 2 by simp
qed

subsection \<open>Response to rainfall\<close>




subsection \<open>The abstract base class\<close>


end
